theory Spec2Isabelle
  imports Complex_Main "HOL-Library.AList"
begin

text \<open>
  A model of \<open>fantasy_football_multi_league.py\<close>, the server module of the fantasy football
  tools: the access gateway \<open>yahoo_api_call\<close> with its cache, rate limiter and credential
  refresh, the discovery of leagues, the parsers of teams and player lists, and the tools
  \<open>ff_get_roster\<close>, \<open>ff_get_standings\<close> and \<open>ff_get_waiver_wire\<close>. Coroutines are modelled
  as functions on the state of the process, one call at a time: no other task runs between
  the awaits of a call.
\<close>

section \<open>Python values\<close>

text \<open>
  The server works on decoded JSON: \<open>None\<close>, booleans, integers, floats, strings, lists and
  dicts whose keys are strings. A dict is an association list in insertion order. A float is
  given by the rational number it denotes (infinities and NaN are not represented).
\<close>

datatype json =
    JNull
  | JBool bool
  | JInt int
  | JFloat rat
  | JStr string
  | JList "json list"
  | JObj "(string \<times> json) list"

text \<open>Exceptions are values: the class and the message.\<close>

datatype exn =
    Exception | ToolError | NameError | TypeError | AttributeError
  | KeyError | IndexError | ValueError | OverflowError | ClientError

datatype error = Raise exn string

definition error_str :: "error \<Rightarrow> string" where
  "error_str e = (case e of Raise c m \<Rightarrow> m)"

definition bind_e :: "error + 'a \<Rightarrow> ('a \<Rightarrow> error + 'b) \<Rightarrow> error + 'b" where
  "bind_e m f = (case m of Inl e \<Rightarrow> Inl e | Inr x \<Rightarrow> f x)"

subsection \<open>Truth value, type tests, equality with a constant\<close>

fun truthy :: "json \<Rightarrow> bool" where
  "truthy JNull = False"
| "truthy (JBool b) = b"
| "truthy (JInt n) = (n \<noteq> 0)"
| "truthy (JFloat q) = (q \<noteq> 0)"
| "truthy (JStr s) = (s \<noteq> [])"
| "truthy (JList xs) = (xs \<noteq> [])"
| "truthy (JObj kvs) = (kvs \<noteq> [])"

definition is_dict :: "json \<Rightarrow> bool" where
  "is_dict v = (case v of JObj kvs \<Rightarrow> True | _ \<Rightarrow> False)"

definition is_list :: "json \<Rightarrow> bool" where
  "is_list v = (case v of JList xs \<Rightarrow> True | _ \<Rightarrow> False)"

definition is_str :: "json \<Rightarrow> bool" where
  "is_str v = (case v of JStr s \<Rightarrow> True | _ \<Rightarrow> False)"

text \<open>The number a value compares as: \<open>True == 1\<close> and \<open>1.0 == 1\<close> hold in Python.\<close>

definition num_val :: "json \<Rightarrow> rat option" where
  "num_val v = (case v of
       JBool b \<Rightarrow> Some (if b then 1 else 0)
     | JInt n \<Rightarrow> Some (of_int n)
     | JFloat q \<Rightarrow> Some q
     | _ \<Rightarrow> None)"

text \<open>\<open>v == s\<close> for a string \<open>s\<close>, and \<open>v == n\<close> for an integer \<open>n\<close>.\<close>

definition eq_str :: "json \<Rightarrow> string \<Rightarrow> bool" where
  "eq_str v s = (v = JStr s)"

definition eq_int :: "json \<Rightarrow> int \<Rightarrow> bool" where
  "eq_int v n = (num_val v = Some (of_int n))"

text \<open>Equality of two hashable values, as a dict compares its keys.\<close>

definition key_eq :: "json \<Rightarrow> json \<Rightarrow> bool" where
  "key_eq a b = (case (num_val a, num_val b) of
       (Some x, Some y) \<Rightarrow> x = y
     | (None, None) \<Rightarrow> a = b
     | _ \<Rightarrow> False)"

definition hashable :: "json \<Rightarrow> bool" where
  "hashable v = (\<not> is_list v \<and> \<not> is_dict v)"

subsection \<open>Attribute \<open>get\<close>, membership, subscription, iteration, length\<close>

text \<open>\<open>obj.get(k, d)\<close>: only a dict has the method.\<close>

definition py_get :: "json \<Rightarrow> string \<Rightarrow> json \<Rightarrow> error + json" where
  "py_get obj k d = (case obj of
       JObj kvs \<Rightarrow> Inr (case map_of kvs k of Some v \<Rightarrow> v | None \<Rightarrow> d)
     | _ \<Rightarrow> Inl (Raise AttributeError ''object has no attribute get''))"

fun has_substring :: "string \<Rightarrow> string \<Rightarrow> bool" where
  "has_substring k [] = (k = [])"
| "has_substring k (c # s) = (take (length k) (c # s) = k \<or> has_substring k s)"

text \<open>\<open>k in obj\<close> for a string \<open>k\<close>: a key of a dict, an element of a list, a substring of a string.\<close>

definition py_in :: "string \<Rightarrow> json \<Rightarrow> error + bool" where
  "py_in k obj = (case obj of
       JObj kvs \<Rightarrow> Inr (map_of kvs k \<noteq> None)
     | JList xs \<Rightarrow> Inr (JStr k \<in> set xs)
     | JStr s \<Rightarrow> Inr (has_substring k s)
     | _ \<Rightarrow> Inl (Raise TypeError ''argument is not iterable''))"

text \<open>A list or string index: negative indices count from the end.\<close>

definition seq_index :: "'a list \<Rightarrow> int \<Rightarrow> error + 'a" where
  "seq_index xs i =
     (if i < - int (length xs) \<or> int (length xs) \<le> i
      then Inl (Raise IndexError ''index out of range'')
      else if i < 0 then Inr (xs ! nat (int (length xs) + i))
      else Inr (xs ! nat i))"

definition as_index :: "json \<Rightarrow> int option" where
  "as_index k = (case k of JInt i \<Rightarrow> Some i | JBool b \<Rightarrow> Some (if b then 1 else 0) | _ \<Rightarrow> None)"

text \<open>\<open>obj[k]\<close>. The keys of a decoded dict are strings, so no other hashable key is found.\<close>

definition py_getitem :: "json \<Rightarrow> json \<Rightarrow> error + json" where
  "py_getitem obj k = (case obj of
       JObj kvs \<Rightarrow>
         (case k of
            JStr s \<Rightarrow> (case map_of kvs s of
                          Some v \<Rightarrow> Inr v
                        | None \<Rightarrow> Inl (Raise KeyError s))
          | JList xs \<Rightarrow> Inl (Raise TypeError ''unhashable type'')
          | JObj d \<Rightarrow> Inl (Raise TypeError ''unhashable type'')
          | _ \<Rightarrow> Inl (Raise KeyError ''key''))
     | JList xs \<Rightarrow>
         (case as_index k of
            Some i \<Rightarrow> seq_index xs i
          | None \<Rightarrow> Inl (Raise TypeError ''list indices must be integers''))
     | JStr s \<Rightarrow>
         (case as_index k of
            Some i \<Rightarrow> bind_e (seq_index s i) (\<lambda>c. Inr (JStr [c]))
          | None \<Rightarrow> Inl (Raise TypeError ''string indices must be integers''))
     | _ \<Rightarrow> Inl (Raise TypeError ''object is not subscriptable''))"

definition at_key :: "json \<Rightarrow> string \<Rightarrow> error + json" where
  "at_key obj s = py_getitem obj (JStr s)"

definition at_index :: "json \<Rightarrow> int \<Rightarrow> error + json" where
  "at_index obj i = py_getitem obj (JInt i)"

text \<open>\<open>for x in obj\<close>: the keys of a dict, the elements of a list, the characters of a string.\<close>

definition py_iter :: "json \<Rightarrow> error + json list" where
  "py_iter obj = (case obj of
       JObj kvs \<Rightarrow> Inr (map (\<lambda>kv. JStr (fst kv)) kvs)
     | JList xs \<Rightarrow> Inr xs
     | JStr s \<Rightarrow> Inr (map (\<lambda>c. JStr [c]) s)
     | _ \<Rightarrow> Inl (Raise TypeError ''object is not iterable''))"

definition py_len :: "json \<Rightarrow> error + nat" where
  "py_len obj = (case obj of
       JObj kvs \<Rightarrow> Inr (length kvs)
     | JList xs \<Rightarrow> Inr (length xs)
     | JStr s \<Rightarrow> Inr (length s)
     | _ \<Rightarrow> Inl (Raise TypeError ''object has no len''))"

text \<open>\<open>d[k] = v\<close> on a dict under construction: an old key keeps its place, a new one goes last.\<close>

definition dict_set :: "string \<Rightarrow> json \<Rightarrow> (string \<times> json) list \<Rightarrow> (string \<times> json) list" where
  "dict_set k v d = AList.update k v d"

definition dict_get :: "(string \<times> json) list \<Rightarrow> string \<Rightarrow> json" where
  "dict_get d k = (case map_of d k of Some v \<Rightarrow> v | None \<Rightarrow> JNull)"

subsection \<open>Decimal rendering of an integer in an f-string\<close>

definition digit_char :: "nat \<Rightarrow> char" where
  "digit_char d = ''0123456789'' ! d"

function str_nat :: "nat \<Rightarrow> string" where
  "str_nat n = (if n < 10 then [digit_char n] else str_nat (n div 10) @ [digit_char (n mod 10)])"
  by pat_completeness auto
termination
  by (relation "measure (\<lambda>n. n)") auto

definition str_int :: "int \<Rightarrow> string" where
  "str_int i = (if i < 0 then CHR ''-'' # str_nat (nat (- i)) else str_nat (nat i))"

section \<open>The process state and its collaborators\<close>

text \<open>
  An answer of an HTTP exchange: a response with its status, its decoded JSON body
  (\<open>response.json()\<close>) and its text (\<open>response.text()\<close>), or an exception raised by the
  exchange (connection failure, timeout, a body that cannot be decoded where the code
  decodes it).
\<close>

datatype http_result = Response int json string | Failed error

text \<open>The calls that leave the module, in the order they are made.\<close>

datatype event =
    CacheGet string
  | RateAcquire
  | HttpGet string
  | RefreshCall
  | TokenPost
  | CacheSet string json

text \<open>
  The state of the process: \<open>os.environ\<close>, the module globals \<open>YAHOO_ACCESS_TOKEN\<close> and
  \<open>LEAGUES_CACHE\<close>, the state of the two objects imported from \<open>src.yahoo_api_utils\<close>, and
  the environment: the answers the Yahoo API and the token endpoint will give to the next
  requests, in order. \<open>trace\<close> records the outgoing calls.
\<close>

record world =
  environ :: "(string \<times> string) list"
  YAHOO_ACCESS_TOKEN :: json
  LEAGUES_CACHE :: "(json \<times> json) list"
  response_cache :: "(string \<times> json) list"
  rate_permits :: nat
  upstream :: "http_result list"
  token_endpoint :: "http_result list"
  trace :: "event list"

definition getenv :: "world \<Rightarrow> string \<Rightarrow> json" where
  "getenv w k = (case map_of (environ w) k of Some v \<Rightarrow> JStr v | None \<Rightarrow> JNull)"

text \<open>
  \<open>os.environ[k] = v\<close> accepts a \<open>str\<close> only (\<open>TypeError\<close> otherwise), and the string must
  not contain a NUL character (\<open>ValueError\<close>: embedded null byte). The keys the module
  assigns are constants without NUL.
\<close>

definition environ_accepts :: "string \<Rightarrow> bool" where
  "environ_accepts s = (CHR 0x00 \<notin> set s)"

definition environ_set :: "string \<Rightarrow> json \<Rightarrow> world \<Rightarrow> error + world" where
  "environ_set k v w = (case v of
       JStr s \<Rightarrow>
         if environ_accepts s then Inr (w\<lparr>environ := AList.update k s (environ w)\<rparr>)
         else Inl (Raise ValueError ''embedded null byte'')
     | _ \<Rightarrow> Inl (Raise TypeError ''str expected''))"

text \<open>
  Modelled from the spec: \<open>response_cache\<close> of \<open>src/yahoo_api_utils.py\<close>, a file that is not
  part of the sources at hand. Section 4.2: \<open>get(key)\<close> returns the cached payload if present
  and unexpired, else a miss signal (\<open>None\<close> at the call site), without an exception;
  \<open>set(key, value)\<close> stores the payload and overwrites any prior entry for the key. The field
  \<open>response_cache\<close> holds the entries that are present and unexpired; entries expire by the
  passing of time between calls, which is a step of the environment, not of the code below.
\<close>

definition response_cache_get :: "string \<Rightarrow> world \<Rightarrow> json \<times> world" where
  "response_cache_get key w =
     (dict_get (response_cache w) key, w\<lparr>trace := trace w @ [CacheGet key]\<rparr>)"

definition response_cache_set :: "string \<Rightarrow> json \<Rightarrow> world \<Rightarrow> world" where
  "response_cache_set key v w =
     w\<lparr>response_cache := AList.update key v (response_cache w),
       trace := trace w @ [CacheSet key v]\<rparr>"

text \<open>
  Modelled from the spec: \<open>rate_limiter\<close> of \<open>src/yahoo_api_utils.py\<close>, not part of the sources
  at hand. Section 4.1: \<open>acquire()\<close> delays the caller until one more call fits the budget,
  records the call and returns; it has no result and no error. The model counts the permits.
\<close>

definition rate_limiter_acquire :: "world \<Rightarrow> world" where
  "rate_limiter_acquire w =
     w\<lparr>rate_permits := Suc (rate_permits w), trace := trace w @ [RateAcquire]\<rparr>"

text \<open>
  \<open>session.get(url, headers)\<close>: the next answer of the Yahoo API. When the environment has no
  answer left the request fails to connect.
\<close>

definition http_get :: "string \<Rightarrow> world \<Rightarrow> http_result \<times> world" where
  "http_get endpoint w =
     (let w1 = w\<lparr>trace := trace w @ [HttpGet endpoint]\<rparr>
      in case upstream w1 of
           [] \<Rightarrow> (Failed (Raise ClientError ''cannot connect''), w1)
         | r # rs \<Rightarrow> (r, w1\<lparr>upstream := rs\<rparr>))"

text \<open>\<open>session.post(token_url, data)\<close>: the next answer of the token endpoint.\<close>

definition token_post :: "world \<Rightarrow> http_result \<times> world" where
  "token_post w =
     (let w1 = w\<lparr>trace := trace w @ [TokenPost]\<rparr>
      in case token_endpoint w1 of
           [] \<Rightarrow> (Failed (Raise ClientError ''cannot connect''), w1)
         | r # rs \<Rightarrow> (r, w1\<lparr>token_endpoint := rs\<rparr>))"

section \<open>refresh_yahoo_token\<close>

text \<open>
  \<open>expires_in / 3600\<close> is defined on numbers only; the quotient of an integer must fit a
  double. The value \<open>round(expires_in / 3600, 1)\<close> is a floating-point number and is not part
  of the model: the entry \<open>expires_in_hours\<close> is left out of the returned dict.
\<close>

definition hours_of :: "json \<Rightarrow> error + unit" where
  "hours_of v = (case v of
       JInt n \<Rightarrow> if \<bar>n\<bar> < 3600 * (2 ^ 1024 - 2 ^ 970) then Inr ()
                 else Inl (Raise OverflowError ''integer division result too large for a float'')
     | JBool b \<Rightarrow> Inr ()
     | JFloat q \<Rightarrow> Inr ()
     | _ \<Rightarrow> Inl (Raise TypeError ''unsupported operand type(s) for /''))"

text \<open>The body of the \<open>try\<close> block. What it has written when it raises stays written.\<close>

definition refresh_exchange :: "string \<Rightarrow> world \<Rightarrow> (error + (string \<times> json) list) \<times> world" where
  "refresh_exchange refresh_token w =
    (case token_post w of
       (Failed e, w1) \<Rightarrow> (Inl e, w1)
     | (Response status token_data error_text, w1) \<Rightarrow>
         if status = 200 then
           (case py_get token_data ''access_token'' JNull of
              Inl e \<Rightarrow> (Inl e, w1)
            | Inr new_access_token \<Rightarrow>
           (case py_get token_data ''refresh_token'' (JStr refresh_token) of
              Inl e \<Rightarrow> (Inl e, w1)
            | Inr new_refresh_token \<Rightarrow>
           (case py_get token_data ''expires_in'' (JInt 3600) of
              Inl e \<Rightarrow> (Inl e, w1)
            | Inr expires_in \<Rightarrow>
           (let w2 = w1\<lparr>YAHOO_ACCESS_TOKEN := new_access_token\<rparr>
            in case environ_set ''YAHOO_ACCESS_TOKEN'' new_access_token w2 of
                 Inl e \<Rightarrow> (Inl e, w2)
               | Inr w3 \<Rightarrow>
                   (case (if new_refresh_token \<noteq> JStr refresh_token
                          then environ_set ''YAHOO_REFRESH_TOKEN'' new_refresh_token w3
                          else Inr w3) of
                      Inl e \<Rightarrow> (Inl e, w3)
                    | Inr w4 \<Rightarrow>
                        (case hours_of expires_in of
                           Inl e \<Rightarrow> (Inl e, w4)
                         | Inr u \<Rightarrow>
                             (Inr [(''status'', JStr ''success''),
                                   (''message'', JStr ''Token refreshed successfully''),
                                   (''expires_in'', expires_in)], w4)))))))
         else
           (Inr [(''status'', JStr ''error''),
                 (''message'', JStr (''Failed to refresh token: '' @ str_int status)),
                 (''details'', JStr (take 200 error_text))], w1))"

text \<open>
  The three credentials read from the environment are all there and not empty:
  \<open>all([client_id, client_secret, refresh_token])\<close>.
\<close>

definition credentials_present :: "world \<Rightarrow> bool" where
  "credentials_present w =
     (truthy (getenv w ''YAHOO_CONSUMER_KEY'') \<and> truthy (getenv w ''YAHOO_CONSUMER_SECRET'')
      \<and> truthy (getenv w ''YAHOO_REFRESH_TOKEN''))"

definition refresh_yahoo_token :: "world \<Rightarrow> (error + (string \<times> json) list) \<times> world" where
  "refresh_yahoo_token w0 =
    (let w = w0\<lparr>trace := trace w0 @ [RefreshCall]\<rparr>;
         refresh_token = getenv w ''YAHOO_REFRESH_TOKEN''
     in if \<not> credentials_present w then
          (Inr [(''status'', JStr ''error''),
                (''message'', JStr ''Missing credentials in environment'')], w)
        else
          (case refresh_exchange (case refresh_token of JStr s \<Rightarrow> s | _ \<Rightarrow> []) w of
             (Inl e, w') \<Rightarrow>
               (Inr [(''status'', JStr ''error''),
                     (''message'', JStr (''Error refreshing token: '' @ error_str e))], w')
           | (Inr result, w') \<Rightarrow> (Inr result, w')))"

section \<open>yahoo_api_call\<close>

text \<open>
  The request goes to \<open>YAHOO_API_BASE/endpoint?format=json\<close> with the current
  \<open>YAHOO_ACCESS_TOKEN\<close> as bearer token; what the upstream answers is given by the
  environment. The retry after a successful refresh is the recursive call with
  \<open>retry_on_auth_fail = False\<close>, as in the source.
\<close>

function yahoo_api_call :: "string \<Rightarrow> bool \<Rightarrow> bool \<Rightarrow> world \<Rightarrow> (error + json) \<times> world" where
  "yahoo_api_call endpoint retry_on_auth_fail use_cache w =
    (let (cached_response, w0) =
           (if use_cache then response_cache_get endpoint w else (JNull, w))
     in if use_cache \<and> cached_response \<noteq> JNull then (Inr cached_response, w0)
        else
          (case http_get endpoint (rate_limiter_acquire w0) of
             (Failed e, w2) \<Rightarrow> (Inl e, w2)
           | (Response status data text, w2) \<Rightarrow>
               if status = 200 then
                 (Inr data, if use_cache then response_cache_set endpoint data w2 else w2)
               else if status = 401 \<and> retry_on_auth_fail then
                 (case refresh_yahoo_token w2 of
                    (Inl e, w3) \<Rightarrow> (Inl e, w3)
                  | (Inr refresh_result, w3) \<Rightarrow>
                      if eq_str (dict_get refresh_result ''status'') ''success''
                      then yahoo_api_call endpoint False use_cache w3
                      else (Inl (Raise Exception
                              (''Yahoo API auth failed and token refresh failed: ''
                                 @ take 200 text)), w3))
               else
                 (Inl (Raise Exception
                    (''Yahoo API error '' @ str_int status @ '': '' @ take 200 text)), w2)))"
  by pat_completeness auto
termination
  by (relation "measure (\<lambda>(endpoint, retry_on_auth_fail, use_cache, w).
                  if retry_on_auth_fail then 1 else 0)") auto

declare yahoo_api_call.simps [simp del]

section \<open>Statements on a local state\<close>

text \<open>
  A statement transforms a local state and may raise; what it has written when it raises
  stays written, as the mutation of a Python object does.
\<close>

definition proceed :: "'s \<Rightarrow> error option \<times> 's" where
  "proceed s = (None, s)"

definition eval_then ::
  "error + 'a \<Rightarrow> ('a \<Rightarrow> 's \<Rightarrow> error option \<times> 's) \<Rightarrow> 's \<Rightarrow> error option \<times> 's" where
  "eval_then m k s = (case m of Inl e \<Rightarrow> (Some e, s) | Inr x \<Rightarrow> k x s)"

fun for_each ::
  "('a \<Rightarrow> 's \<Rightarrow> error option \<times> 's) \<Rightarrow> 'a list \<Rightarrow> 's \<Rightarrow> error option \<times> 's" where
  "for_each body [] s = (None, s)"
| "for_each body (x # xs) s =
     (case body x s of
        (None, s') \<Rightarrow> for_each body xs s'
      | (Some e, s') \<Rightarrow> (Some e, s'))"

text \<open>A loop over pure steps: the first exception ends it.\<close>

fun fold_e :: "('a \<Rightarrow> 's \<Rightarrow> error + 's) \<Rightarrow> 'a list \<Rightarrow> 's \<Rightarrow> error + 's" where
  "fold_e f [] s = Inr s"
| "fold_e f (x # xs) s = (case f x s of Inl e \<Rightarrow> Inl e | Inr s' \<Rightarrow> fold_e f xs s')"

text \<open>A loop that returns from the function at the first step that yields a result.\<close>

fun first_result :: "('a \<Rightarrow> error + 'b option) \<Rightarrow> 'a list \<Rightarrow> error + 'b option" where
  "first_result f [] = Inr None"
| "first_result f (x # xs) =
     (case f x of
        Inl e \<Rightarrow> Inl e
      | Inr (Some r) \<Rightarrow> Inr (Some r)
      | Inr None \<Rightarrow> first_result f xs)"

text \<open>\<open>a and b\<close>: \<open>b\<close> is evaluated only when \<open>a\<close> holds.\<close>

definition and_e :: "error + bool \<Rightarrow> error + bool \<Rightarrow> error + bool" where
  "and_e a b = bind_e a (\<lambda>x. if x then b else Inr False)"

definition dict_get_default :: "(string \<times> json) list \<Rightarrow> string \<Rightarrow> json \<Rightarrow> json" where
  "dict_get_default d k dflt = (case map_of d k of Some v \<Rightarrow> v | None \<Rightarrow> dflt)"

text \<open>\<open>if src in element: info[dst] = element[src]\<close> for a dict \<open>element\<close>.\<close>

definition copy_field ::
  "string \<Rightarrow> string \<Rightarrow> (string \<times> json) list \<Rightarrow> (string \<times> json) list \<Rightarrow> (string \<times> json) list" where
  "copy_field src dst element info =
     (case map_of element src of Some v \<Rightarrow> dict_set dst v info | None \<Rightarrow> info)"

text \<open>
  The guard every parser of the module puts around an entry of a numbered collection:
  \<^verbatim>\<open>if key != "count" and isinstance(c[key], dict):\<close>
  \<^verbatim>\<open>    if field in c[key]:\<close>
  \<^verbatim>\<open>        arr = c[key][field]\<close>
  \<^verbatim>\<open>        if isinstance(arr, list) and len(arr) > 0:\<close>
  The result is \<open>arr[0]\<close> when all tests pass.
\<close>

definition first_of_entry :: "json \<Rightarrow> json \<Rightarrow> string \<Rightarrow> error + json option" where
  "first_of_entry c key field =
     (if eq_str key ''count'' then Inr None
      else bind_e (py_getitem c key) (\<lambda>entry.
        if \<not> is_dict entry then Inr None
        else bind_e (py_in field entry) (\<lambda>has.
          if \<not> has then Inr None
          else bind_e (at_key entry field) (\<lambda>arr.
            case arr of
              JList (x # xs) \<Rightarrow> Inr (Some x)
            | _ \<Rightarrow> Inr None))))"

text \<open>
  \<^verbatim>\<open>league = data.get("fantasy_content", {}).get("league", [])\<close>
  \<^verbatim>\<open>if len(league) > 1 and isinstance(league[1], dict) and field in league[1]:\<close>
  The result is \<open>league[1][field]\<close> when the tests pass.
\<close>

definition league_section :: "json \<Rightarrow> string \<Rightarrow> error + json option" where
  "league_section data field =
     bind_e (py_get data ''fantasy_content'' (JObj [])) (\<lambda>fc.
     bind_e (py_get fc ''league'' (JList [])) (\<lambda>league.
     bind_e (and_e (bind_e (py_len league) (\<lambda>n. Inr (1 < n)))
            (and_e (bind_e (at_index league 1) (\<lambda>l1. Inr (is_dict l1)))
                   (bind_e (at_index league 1) (py_in field)))) (\<lambda>ok.
       if \<not> ok then Inr None
       else bind_e (at_index league 1) (\<lambda>l1.
            bind_e (at_key l1 field) (\<lambda>v. Inr (Some v))))))"

section \<open>discover_leagues\<close>

text \<open>
  The dict \<open>leagues\<close> is keyed by whatever the payload gives as \<open>league_key\<close>: assignment
  needs a hashable key, replaces the value of an equal key and appends a new one.
\<close>

fun pydict_set :: "json \<Rightarrow> json \<Rightarrow> (json \<times> json) list \<Rightarrow> (json \<times> json) list" where
  "pydict_set k v [] = [(k, v)]"
| "pydict_set k v ((k', v') # d) =
     (if key_eq k' k then (k', v) # d else (k', v') # pydict_set k v d)"

definition league_summary :: "json \<Rightarrow> error + json \<times> json" where
  "league_summary league_dict = (case league_dict of
       JObj kvs \<Rightarrow>
         (let league_key = dict_get_default kvs ''league_key'' (JStr [])
          in Inr (league_key,
                  JObj [(''key'', league_key),
                        (''id'', dict_get_default kvs ''league_id'' (JStr [])),
                        (''name'', dict_get_default kvs ''name'' (JStr ''Unknown'')),
                        (''season'', dict_get_default kvs ''season'' (JInt 2025)),
                        (''num_teams'', dict_get_default kvs ''num_teams'' (JInt 0)),
                        (''scoring_type'', dict_get_default kvs ''scoring_type'' (JStr ''head'')),
                        (''current_week'', dict_get_default kvs ''current_week'' (JInt 1)),
                        (''is_finished'', dict_get_default kvs ''is_finished'' (JInt 0))]))
     | _ \<Rightarrow> Inl (Raise AttributeError ''object has no attribute get''))"

definition leagues_key_step ::
  "json \<Rightarrow> json \<Rightarrow> (json \<times> json) list \<Rightarrow> error option \<times> (json \<times> json) list" where
  "leagues_key_step league_data key =
     eval_then (first_of_entry league_data key ''league'') (\<lambda>first.
       case first of
         None \<Rightarrow> proceed
       | Some league_dict \<Rightarrow>
           eval_then (league_summary league_dict) (\<lambda>(league_key, summary) leagues.
             if hashable league_key then (None, pydict_set league_key summary leagues)
             else (Some (Raise TypeError ''unhashable type''), leagues)))"

definition leagues_game_step ::
  "json \<Rightarrow> (json \<times> json) list \<Rightarrow> error option \<times> (json \<times> json) list" where
  "leagues_game_step g =
     eval_then (and_e (Inr (is_dict g)) (py_in ''leagues'' g)) (\<lambda>ok.
       if \<not> ok then proceed
       else eval_then (at_key g ''leagues'') (\<lambda>league_data.
            eval_then (py_iter league_data) (\<lambda>keys.
              for_each (leagues_key_step league_data) keys)))"

definition leagues_item_step ::
  "json \<Rightarrow> (json \<times> json) list \<Rightarrow> error option \<times> (json \<times> json) list" where
  "leagues_item_step item =
     eval_then (and_e (Inr (is_dict item)) (py_in ''games'' item)) (\<lambda>ok.
       if \<not> ok then proceed
       else eval_then (at_key item ''games'') (\<lambda>games.
            eval_then (py_in ''0'' games) (\<lambda>has0.
              if \<not> has0 then proceed
              else eval_then (bind_e (at_key games ''0'') (\<lambda>g0. at_key g0 ''game'')) (\<lambda>game.
                   case game of
                     JList gs \<Rightarrow> for_each leagues_game_step gs
                   | _ \<Rightarrow> proceed))))"

text \<open>The body of the \<open>try\<close> block of \<open>discover_leagues\<close>, on the dict \<open>leagues\<close>.\<close>

definition parse_leagues ::
  "json \<Rightarrow> (json \<times> json) list \<Rightarrow> error option \<times> (json \<times> json) list" where
  "parse_leagues data =
     eval_then (bind_e (py_get data ''fantasy_content'' (JObj []))
                  (\<lambda>fc. py_get fc ''users'' (JObj []))) (\<lambda>users.
     eval_then (py_in ''0'' users) (\<lambda>has0.
       if \<not> has0 then proceed
       else eval_then (bind_e (at_key users ''0'') (\<lambda>u0. at_key u0 ''user'')) (\<lambda>user.
            case user of
              JList items \<Rightarrow> for_each leagues_item_step items
            | _ \<Rightarrow> proceed)))"

definition leagues_endpoint :: string where
  "leagues_endpoint = ''users;use_login=1/games;game_keys=nfl/leagues''"

text \<open>
  The exception of the parse is dropped (\<open>except Exception: pass\<close>) and what the parse has
  put into \<open>leagues\<close> so far becomes \<open>LEAGUES_CACHE\<close>. An exception of \<open>yahoo_api_call\<close> is
  outside the \<open>try\<close> and propagates.
\<close>

definition discover_leagues :: "world \<Rightarrow> (error + (json \<times> json) list) \<times> world" where
  "discover_leagues w =
     (if LEAGUES_CACHE w \<noteq> [] then (Inr (LEAGUES_CACHE w), w)
      else
        (case yahoo_api_call leagues_endpoint True True w of
           (Inl e, w1) \<Rightarrow> (Inl e, w1)
         | (Inr data, w1) \<Rightarrow>
             (let leagues = snd (parse_leagues data [])
              in (Inr leagues, w1\<lparr>LEAGUES_CACHE := leagues\<rparr>))))"

section \<open>Conversions of the interpreter\<close>

text \<open>
  \<open>str()\<close>, \<open>int()\<close> and \<open>float()\<close> are defined by the interpreter, not by the module. What
  they do on the simple values is written out; the rest (the text of a float or of a
  container, the parsing of a string as a number, the rounding of an integer to a float)
  is a parameter of the functions that use them. A missing result stands for the
  \<open>ValueError\<close> or \<open>OverflowError\<close> of the conversion.
\<close>

record builtins =
  repr_of :: "json \<Rightarrow> string"
  int_of_str :: "string \<Rightarrow> int option"
  float_of_str :: "string \<Rightarrow> rat option"
  float_of_int :: "int \<Rightarrow> rat option"

definition py_str :: "builtins \<Rightarrow> json \<Rightarrow> string" where
  "py_str py v = (case v of
       JStr s \<Rightarrow> s
     | JInt n \<Rightarrow> str_int n
     | JBool b \<Rightarrow> (if b then ''True'' else ''False'')
     | JNull \<Rightarrow> ''None''
     | _ \<Rightarrow> repr_of py v)"



section \<open>get_user_team_info\<close>

text \<open>The five local variables the loop over the elements of a team assigns.\<close>

record team_vars =
  var_team_key :: json
  var_team_name :: json
  var_is_users_team :: bool
  var_draft_grade :: json
  var_draft_position :: json

definition team_vars_init :: team_vars where
  "team_vars_init =
     \<lparr>var_team_key = JNull, var_team_name = JNull, var_is_users_team = False,
      var_draft_grade = JNull, var_draft_position = JNull\<rparr>"

text \<open>
  \<^verbatim>\<open>if "managers" in element:\<close> \<^verbatim>\<open>managers = element["managers"]\<close>
  \<^verbatim>\<open>if managers and len(managers) > 0:\<close>
  \<^verbatim>\<open>mgr = managers[0].get("manager", {})\<close>
  \<^verbatim>\<open>if mgr.get("guid") == user_guid: is_users_team = True\<close>
\<close>

definition managed_by :: "string \<Rightarrow> json \<Rightarrow> error + bool" where
  "managed_by user_guid managers =
     bind_e (and_e (Inr (truthy managers)) (bind_e (py_len managers) (\<lambda>n. Inr (0 < n)))) (\<lambda>ok.
       if \<not> ok then Inr False
       else bind_e (at_index managers 0) (\<lambda>m0.
            bind_e (py_get m0 ''manager'' (JObj [])) (\<lambda>mgr.
            bind_e (py_get mgr ''guid'' JNull) (\<lambda>guid. Inr (eq_str guid user_guid)))))"

definition team_element_step :: "string \<Rightarrow> json \<Rightarrow> team_vars \<Rightarrow> error + team_vars" where
  "team_element_step user_guid element tv = (case element of
       JObj el \<Rightarrow>
         (let tv1 = (case map_of el ''team_key'' of Some v \<Rightarrow> tv\<lparr>var_team_key := v\<rparr> | None \<Rightarrow> tv);
              tv2 = (case map_of el ''name'' of Some v \<Rightarrow> tv1\<lparr>var_team_name := v\<rparr> | None \<Rightarrow> tv1);
              tv3 = (case map_of el ''draft_grade'' of
                       Some v \<Rightarrow> tv2\<lparr>var_draft_grade := v\<rparr> | None \<Rightarrow> tv2);
              tv4 = (case map_of el ''draft_position'' of
                       Some v \<Rightarrow> tv3\<lparr>var_draft_position := v\<rparr> | None \<Rightarrow> tv3);
              tv5 = (case map_of el ''is_owned_by_current_login'' of
                       Some v \<Rightarrow> if eq_int v 1 then tv4\<lparr>var_is_users_team := True\<rparr> else tv4
                     | None \<Rightarrow> tv4)
          in case map_of el ''managers'' of
               None \<Rightarrow> Inr tv5
             | Some managers \<Rightarrow>
                 bind_e (managed_by user_guid managers) (\<lambda>mine.
                   Inr (if mine then tv5\<lparr>var_is_users_team := True\<rparr> else tv5)))
     | _ \<Rightarrow> Inr tv)"

definition team_info_step :: "string \<Rightarrow> json \<Rightarrow> json \<Rightarrow> error + json option" where
  "team_info_step user_guid teams key =
     bind_e (first_of_entry teams key ''team'') (\<lambda>first.
       case first of
         Some (JList team_data) \<Rightarrow>
           bind_e (fold_e (team_element_step user_guid) team_data team_vars_init) (\<lambda>tv.
             if var_is_users_team tv \<and> truthy (var_team_key tv)
             then Inr (Some (JObj [(''team_key'', var_team_key tv),
                                   (''team_name'', var_team_name tv),
                                   (''draft_grade'', var_draft_grade tv),
                                   (''draft_position'', var_draft_position tv)]))
             else Inr None)
       | _ \<Rightarrow> Inr None)"

text \<open>The statements of the \<open>try\<close> block after the call of the gateway.\<close>

definition find_user_team :: "string \<Rightarrow> json \<Rightarrow> error + json option" where
  "find_user_team user_guid data =
     bind_e (league_section data ''teams'') (\<lambda>sec.
       case sec of
         None \<Rightarrow> Inr None
       | Some teams \<Rightarrow>
           bind_e (py_iter teams) (\<lambda>keys. first_result (team_info_step user_guid teams) keys))"

text \<open>
  The whole body is inside \<open>try\<close>: an exception of the gateway or of the parse makes the
  function return \<open>None\<close>, as does a payload without a team of the user.
\<close>

definition yahoo_guid :: "world \<Rightarrow> string" where
  "yahoo_guid w = (case map_of (environ w) ''YAHOO_GUID'' of
       Some g \<Rightarrow> g
     | None \<Rightarrow> ''QQQ5VN577FJJ4GT2NLMJMIYEBU'')"

definition get_user_team_info :: "string \<Rightarrow> world \<Rightarrow> json \<times> world" where
  "get_user_team_info league_key w =
     (case yahoo_api_call (''league/'' @ league_key @ ''/teams'') True True w of
        (Inl e, w1) \<Rightarrow> (JNull, w1)
      | (Inr data, w1) \<Rightarrow>
          (case find_user_team (yahoo_guid w1) data of
             Inl e \<Rightarrow> (JNull, w1)
           | Inr None \<Rightarrow> (JNull, w1)
           | Inr (Some team_info) \<Rightarrow> (team_info, w1)))"

section \<open>get_waiver_wire_players\<close>

text \<open>\<open>a or b\<close> on values.\<close>

definition py_or :: "json \<Rightarrow> json \<Rightarrow> json" where
  "py_or a b = (if truthy a then a else b)"








section \<open>get_draft_rankings\<close>










section \<open>The tools\<close>

subsection \<open>ff_get_roster\<close>

definition roster_name :: "json \<Rightarrow> (string \<times> json) list \<Rightarrow> (string \<times> json) list" where
  "roster_name name_val info = (case name_val of
       JObj nv \<Rightarrow> dict_set ''name'' (py_or (dict_get nv ''full'') (dict_get nv ''first'')) info
     | JStr s \<Rightarrow> dict_set ''name'' (JStr s) info
     | _ \<Rightarrow> info)"

definition roster_selected ::
  "builtins \<Rightarrow> json \<Rightarrow> (string \<times> json) list \<Rightarrow> (string \<times> json) list" where
  "roster_selected py sel info = (case sel of
       JList (s0 # rest) \<Rightarrow>
         (case s0 of
            JObj d \<Rightarrow>
              dict_set ''position'' (py_or (dict_get d ''position'') (dict_get d ''position_type'')) info
          | _ \<Rightarrow> dict_set ''position'' (JStr (py_str py s0)) info)
     | JObj d \<Rightarrow>
         dict_set ''position'' (py_or (dict_get d ''position'') (dict_get d ''position_type'')) info
     | _ \<Rightarrow> info)"

definition roster_element_step ::
  "builtins \<Rightarrow> json \<Rightarrow> (string \<times> json) list \<Rightarrow> error + (string \<times> json) list" where
  "roster_element_step py element info = (case element of
       JObj el \<Rightarrow>
         (let i1 = (case map_of el ''name'' of
                      Some name_val \<Rightarrow> roster_name name_val info
                    | None \<Rightarrow> info);
              i2 = (case map_of el ''selected_position'' of
                      Some sel \<Rightarrow> roster_selected py sel i1
                    | None \<Rightarrow>
                        (case map_of el ''display_position'' of
                           Some v \<Rightarrow> dict_set ''position'' v i1
                         | None \<Rightarrow> copy_field ''position'' ''position'' el i1));
              i3 = (case map_of el ''status'' of
                      Some v \<Rightarrow> dict_set ''status'' v i2
                    | None \<Rightarrow> copy_field ''status_full'' ''status'' el i2)
          in Inr i3)
     | _ \<Rightarrow> Inr info)"

definition roster_key_step ::
  "builtins \<Rightarrow> json \<Rightarrow> json \<Rightarrow> json list \<Rightarrow> error + json list" where
  "roster_key_step py players key roster =
     bind_e (first_of_entry players key ''player'') (\<lambda>first.
       case first of
         Some (JList player_data) \<Rightarrow>
           bind_e (fold_e (roster_element_step py) player_data []) (\<lambda>player_info.
             Inr (if truthy (dict_get player_info ''name'')
                  then roster @ [JObj player_info] else roster))
       | _ \<Rightarrow> Inr roster)"

definition roster_item_step :: "builtins \<Rightarrow> json \<Rightarrow> json list \<Rightarrow> error + json list" where
  "roster_item_step py item roster =
     bind_e (and_e (Inr (is_dict item)) (py_in ''roster'' item)) (\<lambda>ok.
       if \<not> ok then Inr roster
       else bind_e (at_key item ''roster'') (\<lambda>roster_data.
            bind_e (and_e (py_in ''0'' roster_data)
                      (bind_e (at_key roster_data ''0'') (py_in ''players''))) (\<lambda>ok2.
              if \<not> ok2 then Inr roster
              else bind_e (bind_e (at_key roster_data ''0'') (\<lambda>r0. at_key r0 ''players''))
                     (\<lambda>players.
                   bind_e (py_iter players) (\<lambda>keys.
                     fold_e (roster_key_step py players) keys roster)))))"

definition parse_roster :: "builtins \<Rightarrow> json \<Rightarrow> error + json list" where
  "parse_roster py data =
     bind_e (py_get data ''fantasy_content'' (JObj [])) (\<lambda>fc.
     bind_e (py_get fc ''team'' (JList [])) (\<lambda>team.
     bind_e (py_iter team) (\<lambda>items. fold_e (roster_item_step py) items [])))"

text \<open>
  Nothing of the body is inside a \<open>try\<close>: an exception of the gateway or of the parse
  propagates. Without a team of the user the tool raises \<open>ToolError\<close>.
\<close>

definition ff_get_roster :: "builtins \<Rightarrow> string \<Rightarrow> world \<Rightarrow> (error + json) \<times> world" where
  "ff_get_roster py league_key w =
     (case get_user_team_info league_key w of (team_info, w1) \<Rightarrow>
        if truthy team_info then
          (case at_key team_info ''team_key'' of
             Inl e \<Rightarrow> (Inl e, w1)
           | Inr team_key \<Rightarrow>
               (case yahoo_api_call (''team/'' @ py_str py team_key @ ''/roster'') True True w1 of
                  (Inl e, w2) \<Rightarrow> (Inl e, w2)
                | (Inr data, w2) \<Rightarrow>
                    (case parse_roster py data of
                       Inl e \<Rightarrow> (Inl e, w2)
                     | Inr roster \<Rightarrow>
                         (case bind_e (py_get team_info ''team_name'' (JStr ''Unknown'')) (\<lambda>nm.
                               bind_e (py_get team_info ''draft_position'' JNull) (\<lambda>dp.
                               bind_e (py_get team_info ''draft_grade'' JNull) (\<lambda>dg.
                                 Inr (JObj [(''league_key'', JStr league_key),
                                            (''team_key'', team_key),
                                            (''team_name'', nm),
                                            (''draft_position'', dp),
                                            (''draft_grade'', dg),
                                            (''roster'', JList roster)])))) of
                            Inl e \<Rightarrow> (Inl e, w2)
                          | Inr result \<Rightarrow> (Inr result, w2)))))
        else
          (Inl (Raise ToolError (''Could not find your team in league '' @ league_key)), w1))"

subsection \<open>ff_get_standings\<close>

definition name_error :: "string \<Rightarrow> error" where
  "name_error n = Raise NameError (''name '' @ [CHR 0x27] @ n @ [CHR 0x27] @ '' is not defined'')"

text \<open>
  The first statement binds the payload to \<open>ata\<close>. The next one reads \<open>data\<close>, which is
  neither a parameter nor assigned anywhere in the function, nor bound at module level: the
  read raises \<open>NameError\<close>, outside any \<open>try\<close>, and the rest of the body (the structural
  parses, the deep scan, the placeholder standings) is never run.
\<close>

definition ff_get_standings :: "string \<Rightarrow> world \<Rightarrow> (error + json) \<times> world" where
  "ff_get_standings league_key w =
     (case yahoo_api_call (''league/'' @ league_key @ ''/standings'') True True w of
        (Inl e, w1) \<Rightarrow> (Inl e, w1)
      | (Inr ata, w1) \<Rightarrow> (Inl (name_error ''data''), w1))"

subsection \<open>ff_get_waiver_wire\<close>

text \<open>
  The first statement reads \<open>arguments\<close>, which is not a parameter, not assigned in the
  function and not bound at module level: the read raises \<open>NameError\<close> before anything
  else is done.
\<close>

definition ff_get_waiver_wire ::
  "string \<Rightarrow> string \<Rightarrow> string \<Rightarrow> int \<Rightarrow> world \<Rightarrow> (error + json) \<times> world" where
  "ff_get_waiver_wire league_key position sort_arg count w =
     (Inl (name_error ''arguments''), w)"

section \<open>Observations on a run\<close>

text \<open>How often the credential refresher has been invoked.\<close>

definition refresh_count :: "world \<Rightarrow> nat" where
  "refresh_count w = length (filter (\<lambda>ev. ev = RefreshCall) (trace w))"

text \<open>
  The response cache is not consulted, or has no payload for the endpoint (\<open>None\<close> is its
  miss signal).
\<close>

definition cache_miss :: "string \<Rightarrow> bool \<Rightarrow> world \<Rightarrow> bool" where
  "cache_miss endpoint use_cache w =
     (\<not> use_cache \<or> dict_get (response_cache w) endpoint = JNull)"

text \<open>
  One pass of \<open>yahoo_api_call\<close> up to the answer of the upstream: the cache lookup (if
  enabled), the permit, the request.
\<close>

definition attempt :: "string \<Rightarrow> bool \<Rightarrow> world \<Rightarrow> http_result \<times> world" where
  "attempt endpoint use_cache w =
     http_get endpoint (rate_limiter_acquire
       (if use_cache then snd (response_cache_get endpoint w) else w))"

section \<open>Sample states\<close>

definition sample_environ :: "(string \<times> string) list" where
  "sample_environ =
     [(''YAHOO_CONSUMER_KEY'', ''key''), (''YAHOO_CONSUMER_SECRET'', ''secret''),
      (''YAHOO_REFRESH_TOKEN'', ''r0''), (''YAHOO_ACCESS_TOKEN'', ''a0'')]"

text \<open>The upstream answers 401 twice; the token endpoint issues a new access token.\<close>

definition world_401_twice :: world where
  "world_401_twice =
     \<lparr>environ = sample_environ, YAHOO_ACCESS_TOKEN = JStr ''a0'', LEAGUES_CACHE = [],
      response_cache = [], rate_permits = 0,
      upstream = [Response 401 JNull ''expired'', Response 401 JNull ''still expired''],
      token_endpoint = [Response 200 (JObj [(''access_token'', JStr ''a1'')]) []],
      trace = []\<rparr>"

text \<open>The response cache holds a payload for the endpoint.\<close>

definition world_cached :: world where
  "world_cached =
     \<lparr>environ = sample_environ, YAHOO_ACCESS_TOKEN = JStr ''a0'', LEAGUES_CACHE = [],
      response_cache = [(''league/1/standings'', JObj [(''fantasy_content'', JObj [])])],
      rate_permits = 0,
      upstream = [Response 500 JNull ''not asked''],
      token_endpoint = [],
      trace = []\<rparr>"

text \<open>Nothing cached; the upstream answers 200.\<close>

definition world_200 :: world where
  "world_200 =
     \<lparr>environ = sample_environ, YAHOO_ACCESS_TOKEN = JStr ''a0'', LEAGUES_CACHE = [],
      response_cache = [], rate_permits = 0,
      upstream = [Response 200 (JObj [(''fantasy_content'', JObj [])]) []],
      token_endpoint = [],
      trace = []\<rparr>"

text \<open>Nothing cached; the upstream answers 503 with a body of 300 characters.\<close>

definition world_503 :: world where
  "world_503 =
     \<lparr>environ = sample_environ, YAHOO_ACCESS_TOKEN = JStr ''a0'', LEAGUES_CACHE = [],
      response_cache = [], rate_permits = 0,
      upstream = [Response 503 JNull (replicate 300 (CHR ''x''))],
      token_endpoint = [],
      trace = []\<rparr>"

text \<open>The consumer secret is not set and the refresh token is empty.\<close>

definition world_no_credentials :: world where
  "world_no_credentials =
     \<lparr>environ = [(''YAHOO_CONSUMER_KEY'', ''key''), (''YAHOO_REFRESH_TOKEN'', [])],
      YAHOO_ACCESS_TOKEN = JNull, LEAGUES_CACHE = [],
      response_cache = [], rate_permits = 0, upstream = [],
      token_endpoint = [Response 200 (JObj [(''access_token'', JStr ''a1'')]) []],
      trace = []\<rparr>"

text \<open>The token endpoint answers 500.\<close>

definition world_token_500 :: world where
  "world_token_500 =
     \<lparr>environ = sample_environ, YAHOO_ACCESS_TOKEN = JStr ''a0'', LEAGUES_CACHE = [],
      response_cache = [], rate_permits = 0, upstream = [],
      token_endpoint = [Response 500 JNull ''Server Error''],
      trace = []\<rparr>"

text \<open>The exchange with the token endpoint raises.\<close>

definition world_token_down :: world where
  "world_token_down =
     \<lparr>environ = sample_environ, YAHOO_ACCESS_TOKEN = JStr ''a0'', LEAGUES_CACHE = [],
      response_cache = [], rate_permits = 0, upstream = [],
      token_endpoint = [Failed (Raise ClientError ''timed out'')],
      trace = []\<rparr>"








text \<open>Nothing cached; the upstream answers 200 with the given payload.\<close>

definition world_answering :: "json \<Rightarrow> world" where
  "world_answering payload =
     \<lparr>environ = sample_environ, YAHOO_ACCESS_TOKEN = JStr ''a0'', LEAGUES_CACHE = [],
      response_cache = [], rate_permits = 0,
      upstream = [Response 200 payload []],
      token_endpoint = [],
      trace = []\<rparr>"

text \<open>The payload of a user without a league, and of a user with one league.\<close>

definition payload_no_leagues :: json where
  "payload_no_leagues =
     JObj [(''fantasy_content'',
            JObj [(''users'',
                   JObj [(''0'', JObj [(''user'',
                            JList [JObj [(''guid'', JStr ''QQQ5VN577FJJ4GT2NLMJMIYEBU'')],
                                   JObj [(''games'',
                                          JObj [(''0'', JObj [(''game'',
                                                   JList [JObj [(''game_key'', JStr ''461'')],
                                                          JObj [(''leagues'', JObj [(''count'', JInt 0)])]])]),
                                                (''count'', JInt 1)])]])]),
                         (''count'', JInt 1)])])]"

definition payload_one_league :: json where
  "payload_one_league =
     JObj [(''fantasy_content'',
            JObj [(''users'',
                   JObj [(''0'', JObj [(''user'',
                            JList [JObj [(''guid'', JStr ''QQQ5VN577FJJ4GT2NLMJMIYEBU'')],
                                   JObj [(''games'',
                                          JObj [(''0'', JObj [(''game'',
                                                   JList [JObj [(''game_key'', JStr ''461'')],
                                                          JObj [(''leagues'',
                                                            JObj [(''0'', JObj [(''league'',
                                                                     JList [JObj [(''league_key'', JStr ''461.l.61410''),
                                                                                  (''name'', JStr ''Home League'')]])]),
                                                                  (''count'', JInt 1)])]])]),
                                                (''count'', JInt 1)])]])]),
                         (''count'', JInt 1)])])]"

text \<open>
  A sample of the interpreter's conversions for the examples: numbers are read from unsigned
  decimal numerals.
\<close>

fun digits_value :: "string \<Rightarrow> nat \<Rightarrow> nat option" where
  "digits_value [] acc = Some acc"
| "digits_value (c # cs) acc =
     (if c \<in> set ''0123456789''
      then digits_value cs (10 * acc + (of_char c - 48))
      else None)"

definition py_sample :: builtins where
  "py_sample =
     \<lparr>repr_of = (\<lambda>v. ''<repr>''),
      int_of_str = (\<lambda>s. if s = [] then None else map_option int (digits_value s 0)),
      float_of_str = (\<lambda>s. if s = [] then None
                            else map_option (\<lambda>n. of_nat n) (digits_value s 0)),
      float_of_int = (\<lambda>n. Some (of_int n))\<rparr>"

text \<open>The payload of a league whose standings are not there.\<close>

definition payload_no_standings :: json where
  "payload_no_standings =
     JObj [(''fantasy_content'',
            JObj [(''league'',
                   JList [JObj [(''league_key'', JStr ''461.l.61410''),
                                (''name'', JStr ''Home League'')]])])]"

text \<open>The teams of a league, none of them owned by the user.\<close>

definition payload_other_team :: json where
  "payload_other_team =
     JObj [(''fantasy_content'',
            JObj [(''league'',
                   JList [JObj [(''league_key'', JStr ''461.l.61410'')],
                          JObj [(''teams'',
                            JObj [(''0'', JObj [(''team'',
                                     JList [JList [JObj [(''team_key'', JStr ''461.l.61410.t.1'')],
                                                   JObj [(''name'', JStr ''Rivals'')],
                                                   JObj [(''managers'',
                                                     JList [JObj [(''manager'',
                                                       JObj [(''guid'', JStr ''SOMEONE'')])]])]]])]),
                                  (''count'', JInt 1)])]])])]"

section \<open>Properties\<close>

subsection \<open>What a step leaves untouched\<close>

lemma environ_set_fields:
  "environ_set k v w = Inr w' \<Longrightarrow>
     trace w' = trace w \<and> response_cache w' = response_cache w \<and> upstream w' = upstream w
     \<and> rate_permits w' = rate_permits w \<and> LEAGUES_CACHE w' = LEAGUES_CACHE w
     \<and> token_endpoint w' = token_endpoint w \<and> YAHOO_ACCESS_TOKEN w' = YAHOO_ACCESS_TOKEN w"
  by (auto simp: environ_set_def split: json.splits if_splits)

lemma token_post_fields:
  "token_post w = (r, w') \<Longrightarrow>
     trace w' = trace w @ [TokenPost] \<and> response_cache w' = response_cache w
     \<and> upstream w' = upstream w \<and> rate_permits w' = rate_permits w
     \<and> LEAGUES_CACHE w' = LEAGUES_CACHE w \<and> environ w' = environ w
     \<and> YAHOO_ACCESS_TOKEN w' = YAHOO_ACCESS_TOKEN w"
  by (auto simp: token_post_def Let_def split: list.splits)

lemma refresh_exchange_fields:
  assumes "refresh_exchange rt w = (r, w')"
  shows "trace w' = trace w @ [TokenPost] \<and> response_cache w' = response_cache w
     \<and> upstream w' = upstream w \<and> rate_permits w' = rate_permits w
     \<and> LEAGUES_CACHE w' = LEAGUES_CACHE w"
proof -
  obtain a w1 where tp: "token_post w = (a, w1)" by (cases "token_post w")
  note f1 = token_post_fields [OF tp]
  show ?thesis
    using assms f1 unfolding refresh_exchange_def tp
    by (auto simp: Let_def split: http_result.splits if_splits sum.splits
             dest!: environ_set_fields)
qed

lemma refresh_yahoo_token_fields:
  assumes "refresh_yahoo_token w = (r, w')"
  shows "(trace w' = trace w @ [RefreshCall] \<or> trace w' = trace w @ [RefreshCall, TokenPost])
     \<and> response_cache w' = response_cache w
     \<and> upstream w' = upstream w \<and> rate_permits w' = rate_permits w
     \<and> LEAGUES_CACHE w' = LEAGUES_CACHE w"
proof -
  let ?w = "w\<lparr>trace := trace w @ [RefreshCall]\<rparr>"
  let ?rt = "case getenv ?w ''YAHOO_REFRESH_TOKEN'' of JStr s \<Rightarrow> s | _ \<Rightarrow> []"
  obtain a w1 where ex: "refresh_exchange ?rt ?w = (a, w1)"
    by (cases "refresh_exchange ?rt ?w")
  note f = refresh_exchange_fields [OF ex]
  show ?thesis
    using assms f unfolding refresh_yahoo_token_def Let_def ex
    by (auto split: if_splits sum.splits)
qed

lemma http_get_fields:
  "http_get endpoint w = (r, w') \<Longrightarrow>
     trace w' = trace w @ [HttpGet endpoint] \<and> response_cache w' = response_cache w
     \<and> rate_permits w' = rate_permits w \<and> LEAGUES_CACHE w' = LEAGUES_CACHE w
     \<and> environ w' = environ w \<and> token_endpoint w' = token_endpoint w"
  by (auto simp: http_get_def Let_def split: list.splits)

lemma attempt_fields:
  "attempt endpoint use_cache w = (r, w') \<Longrightarrow>
     trace w' = trace w @ (if use_cache then [CacheGet endpoint] else []) @ [RateAcquire, HttpGet endpoint]
     \<and> response_cache w' = response_cache w \<and> LEAGUES_CACHE w' = LEAGUES_CACHE w"
  by (auto simp: attempt_def response_cache_get_def rate_limiter_acquire_def
           dest!: http_get_fields split: if_splits)

subsection \<open>One pass of the gateway\<close>

lemma yahoo_api_call_hit:
  "dict_get (response_cache w) endpoint \<noteq> JNull \<Longrightarrow>
   yahoo_api_call endpoint retry True w =
     (Inr (dict_get (response_cache w) endpoint), w\<lparr>trace := trace w @ [CacheGet endpoint]\<rparr>)"
  by (subst yahoo_api_call.simps) (simp add: response_cache_get_def)

lemma yahoo_api_call_miss:
  "cache_miss endpoint use_cache w \<Longrightarrow>
   yahoo_api_call endpoint retry use_cache w =
     (case attempt endpoint use_cache w of
        (Failed e, w2) \<Rightarrow> (Inl e, w2)
      | (Response status data text, w2) \<Rightarrow>
          if status = 200 then
            (Inr data, if use_cache then response_cache_set endpoint data w2 else w2)
          else if status = 401 \<and> retry then
            (case refresh_yahoo_token w2 of
               (Inl e, w3) \<Rightarrow> (Inl e, w3)
             | (Inr refresh_result, w3) \<Rightarrow>
                 if eq_str (dict_get refresh_result ''status'') ''success''
                 then yahoo_api_call endpoint False use_cache w3
                 else (Inl (Raise Exception
                         (''Yahoo API auth failed and token refresh failed: ''
                            @ take 200 text)), w3))
          else
            (Inl (Raise Exception
               (''Yahoo API error '' @ str_int status @ '': '' @ take 200 text)), w2))"
  by (subst yahoo_api_call.simps)
     (auto simp: cache_miss_def attempt_def response_cache_get_def split: prod.splits)

lemma cache_miss_after_refresh:
  assumes "cache_miss endpoint use_cache w"
    and "attempt endpoint use_cache w = (r, w1)"
    and "refresh_yahoo_token w1 = (rr, w2)"
  shows "cache_miss endpoint use_cache w2"
  using assms attempt_fields [OF assms(2)] refresh_yahoo_token_fields [OF assms(3)]
  by (simp add: cache_miss_def)

lemma trace_after_call_miss:
  assumes "dict_get (response_cache w) endpoint = JNull"
  shows "\<exists>rest. trace (snd (yahoo_api_call endpoint retry True w))
            = trace w @ [CacheGet endpoint, RateAcquire, HttpGet endpoint] @ rest"
proof -
  have miss: "cache_miss endpoint True w" using assms by (simp add: cache_miss_def)
  obtain r w1 where a: "attempt endpoint True w = (r, w1)"
    by (cases "attempt endpoint True w")
  have t1: "trace w1 = trace w @ [CacheGet endpoint, RateAcquire, HttpGet endpoint]"
    using attempt_fields [OF a] by simp
  obtain rr w2 where b: "refresh_yahoo_token w1 = (rr, w2)"
    by (cases "refresh_yahoo_token w1")
  have t2: "\<exists>evs. trace w2 = trace w1 @ evs"
    using refresh_yahoo_token_fields [OF b] by auto
  have miss2: "cache_miss endpoint True w2"
    using cache_miss_after_refresh [OF miss a b] .
  obtain r3 w3 where c: "attempt endpoint True w2 = (r3, w3)"
    by (cases "attempt endpoint True w2")
  have t3: "\<exists>evs. trace w3 = trace w2 @ evs"
    using attempt_fields [OF c] by auto
  have t4: "\<exists>evs. trace (snd (yahoo_api_call endpoint False True w2)) = trace w2 @ evs"
    using miss2 c t3
    by (auto simp: yahoo_api_call_miss response_cache_set_def split: http_result.splits)
  show ?thesis
    using miss a b t1 t2 t4
    by (auto simp: yahoo_api_call_miss response_cache_set_def
             split: http_result.splits sum.splits)
qed

lemmas world_eval = sample_environ_def attempt_def cache_miss_def http_get_def
  rate_limiter_acquire_def response_cache_get_def response_cache_set_def dict_get_def
  refresh_yahoo_token_def refresh_exchange_def token_post_def getenv_def environ_set_def
  py_get_def hours_of_def eq_str_def error_str_def credentials_present_def
  environ_accepts_def Let_def

subsection \<open>The refresher runs at most once\<close>

lemma refresh_count_no_retry:
  "refresh_count (snd (yahoo_api_call endpoint False use_cache w)) = refresh_count w"
proof (cases "cache_miss endpoint use_cache w")
  case True
  obtain r w1 where a: "attempt endpoint use_cache w = (r, w1)"
    by (cases "attempt endpoint use_cache w")
  have "refresh_count w1 = refresh_count w"
    using attempt_fields [OF a] by (simp add: refresh_count_def)
  then show ?thesis
    using True a
    by (simp add: yahoo_api_call_miss response_cache_set_def refresh_count_def
             split: http_result.splits)
next
  case False
  then show ?thesis
    by (simp add: cache_miss_def yahoo_api_call_hit refresh_count_def)
qed

lemma refresh_count_refresh:
  "refresh_count (snd (refresh_yahoo_token w)) = Suc (refresh_count w)"
proof -
  obtain r w' where a: "refresh_yahoo_token w = (r, w')" by (cases "refresh_yahoo_token w")
  show ?thesis using refresh_yahoo_token_fields [OF a] a
    by (auto simp: refresh_count_def)
qed

lemma refresh_count_bound:
  "refresh_count (snd (yahoo_api_call endpoint retry use_cache w)) \<le> Suc (refresh_count w)"
proof (cases retry)
  case False
  then show ?thesis by (simp add: refresh_count_no_retry)
next
  case True
  show ?thesis
  proof (cases "cache_miss endpoint use_cache w")
    case False
    then show ?thesis
      by (simp add: cache_miss_def yahoo_api_call_hit refresh_count_def)
  next
    case miss: True
    obtain r w1 where a: "attempt endpoint use_cache w = (r, w1)"
      by (cases "attempt endpoint use_cache w")
    have c1: "refresh_count w1 = refresh_count w"
      using attempt_fields [OF a] by (simp add: refresh_count_def)
    obtain rr w2 where b: "refresh_yahoo_token w1 = (rr, w2)"
      by (cases "refresh_yahoo_token w1")
    have c2: "refresh_count w2 = Suc (refresh_count w)"
      using refresh_count_refresh [of w1] b c1 by simp
    have c3: "refresh_count (snd (yahoo_api_call endpoint False use_cache w2)) = Suc (refresh_count w)"
      using c2 by (simp add: refresh_count_no_retry)
    show ?thesis
      using miss a b c1 c2 c3
      by (simp add: yahoo_api_call_miss response_cache_set_def refresh_count_def
               split: http_result.splits sum.splits)
  qed
qed

lemma str_int_401: "str_int 401 = ''401''"
  by (simp add: str_int_def digit_char_def)

text \<open>
  Claim C1. One call of \<open>yahoo_api_call\<close> invokes \<open>refresh_yahoo_token\<close> at most once, however
  the upstream answers; a call with \<open>retry_on_auth_fail = False\<close> never invokes it; and when
  the upstream answers 401, the refresh succeeds and the upstream answers 401 again, the call
  made after the refresh raises the error of status 401 and the refresher has run exactly once.
\<close>

theorem yahoo_api_call_refreshes_at_most_once:
  "refresh_count (snd (yahoo_api_call endpoint retry use_cache w)) \<le> Suc (refresh_count w)
   \<and> refresh_count (snd (yahoo_api_call endpoint False use_cache w)) = refresh_count w
   \<and> (cache_miss endpoint use_cache w
        \<and> attempt endpoint use_cache w = (Response 401 data1 text1, w1)
        \<and> refresh_yahoo_token w1 = (Inr refresh_result, w2)
        \<and> eq_str (dict_get refresh_result ''status'') ''success''
        \<and> attempt endpoint use_cache w2 = (Response 401 data2 text2, w3)
      \<longrightarrow> yahoo_api_call endpoint True use_cache w
            = (Inl (Raise Exception (''Yahoo API error 401: '' @ take 200 text2)), w3)
          \<and> refresh_count w3 = Suc (refresh_count w))"
proof (intro conjI impI)
  show "refresh_count (snd (yahoo_api_call endpoint retry use_cache w)) \<le> Suc (refresh_count w)"
    by (rule refresh_count_bound)
  show "refresh_count (snd (yahoo_api_call endpoint False use_cache w)) = refresh_count w"
    by (rule refresh_count_no_retry)
next
  assume h: "cache_miss endpoint use_cache w
        \<and> attempt endpoint use_cache w = (Response 401 data1 text1, w1)
        \<and> refresh_yahoo_token w1 = (Inr refresh_result, w2)
        \<and> eq_str (dict_get refresh_result ''status'') ''success''
        \<and> attempt endpoint use_cache w2 = (Response 401 data2 text2, w3)"
  then have miss2: "cache_miss endpoint use_cache w2"
    using cache_miss_after_refresh by blast
  have retry: "yahoo_api_call endpoint False use_cache w2
      = (Inl (Raise Exception (''Yahoo API error 401: '' @ take 200 text2)), w3)"
    using h miss2 by (simp add: yahoo_api_call_miss str_int_401)
  show "yahoo_api_call endpoint True use_cache w
            = (Inl (Raise Exception (''Yahoo API error 401: '' @ take 200 text2)), w3)"
    using h retry by (simp add: yahoo_api_call_miss)
  have "refresh_count w1 = refresh_count w"
    using h attempt_fields [of endpoint use_cache w] by (simp add: refresh_count_def)
  moreover have "refresh_count w2 = Suc (refresh_count w1)"
    using h refresh_count_refresh [of w1] by simp
  moreover have "refresh_count w3 = refresh_count w2"
    using h attempt_fields [of endpoint use_cache w2] by (simp add: refresh_count_def)
  ultimately show "refresh_count w3 = Suc (refresh_count w)" by simp
qed

theorem yahoo_api_call_refreshes_at_most_once_witness:
  "fst (yahoo_api_call ''league/1/standings'' True True world_401_twice)
     = Inl (Raise Exception ''Yahoo API error 401: still expired'')
   \<and> refresh_count (snd (yahoo_api_call ''league/1/standings'' True True world_401_twice)) = 1"
proof -
  let ?e = "''league/1/standings''"
  let ?w1 = "snd (attempt ?e True world_401_twice)"
  let ?res = "[(''status'', JStr ''success''),
               (''message'', JStr ''Token refreshed successfully''),
               (''expires_in'', JInt 3600)]"
  let ?w2 = "snd (refresh_yahoo_token ?w1)"
  let ?w3 = "snd (attempt ?e True ?w2)"
  have h0: "refresh_count world_401_twice = 0"
    by (simp add: world_401_twice_def refresh_count_def)
  have h1: "cache_miss ?e True world_401_twice"
    by (simp add: world_401_twice_def world_eval)
  have h2: "attempt ?e True world_401_twice = (Response 401 JNull ''expired'', ?w1)"
    by (simp add: world_401_twice_def world_eval)
  have h3: "refresh_yahoo_token ?w1 = (Inr ?res, ?w2)"
    by (simp add: world_401_twice_def world_eval)
  have h4: "eq_str (dict_get ?res ''status'') ''success''"
    by (simp add: world_eval)
  have h5: "attempt ?e True ?w2 = (Response 401 JNull ''still expired'', ?w3)"
    by (simp add: world_401_twice_def world_eval)
  show ?thesis
    using yahoo_api_call_refreshes_at_most_once
      [of ?e True True world_401_twice JNull "''expired''" ?w1 ?res ?w2 JNull
          "''still expired''" ?w3] h0 h1 h2 h3 h4 h5
    by simp
qed

subsection \<open>Cache, permit, request\<close>

text \<open>
  Claim C2. With \<open>use_cache = True\<close>: when the response cache has a payload for the endpoint,
  \<open>yahoo_api_call\<close> returns it and does nothing but the cache lookup (no permit, no request);
  when it has none, the permit is acquired before the request is issued. For any
  \<open>use_cache\<close>, after a miss the payload is stored in the cache exactly when the response
  has status 200 and \<open>use_cache\<close> holds. On the path through a 401 with retry enabled the
  cache is left alone by the refresh, and the call is the retried call when the refresh
  succeeded and an error otherwise.
\<close>

theorem yahoo_api_call_cache_then_permit_then_request:
  "(dict_get (response_cache w) endpoint \<noteq> JNull \<longrightarrow>
       yahoo_api_call endpoint retry True w
         = (Inr (dict_get (response_cache w) endpoint),
            w\<lparr>trace := trace w @ [CacheGet endpoint]\<rparr>))
   \<and> (dict_get (response_cache w) endpoint = JNull \<longrightarrow>
       (\<exists>rest. trace (snd (yahoo_api_call endpoint retry True w))
                 = trace w @ [CacheGet endpoint, RateAcquire, HttpGet endpoint] @ rest))
   \<and> (cache_miss endpoint use_cache w
        \<and> attempt endpoint use_cache w = (Response status data text, w1)
        \<and> (status \<noteq> 401 \<or> \<not> retry) \<longrightarrow>
       snd (yahoo_api_call endpoint retry use_cache w)
         = (if status = 200 \<and> use_cache then response_cache_set endpoint data w1 else w1)
       \<and> response_cache w1 = response_cache w)
   \<and> (cache_miss endpoint use_cache w
        \<and> attempt endpoint use_cache w = (Response 401 data text, w1)
        \<and> refresh_yahoo_token w1 = (Inr refresh_result, w2) \<longrightarrow>
       response_cache w2 = response_cache w
       \<and> cache_miss endpoint use_cache w2
       \<and> yahoo_api_call endpoint True use_cache w
         = (if eq_str (dict_get refresh_result ''status'') ''success''
            then yahoo_api_call endpoint False use_cache w2
            else (Inl (Raise Exception
                    (''Yahoo API auth failed and token refresh failed: '' @ take 200 text)),
                  w2)))"
proof (intro conjI impI)
  assume "dict_get (response_cache w) endpoint \<noteq> JNull"
  then show "yahoo_api_call endpoint retry True w
         = (Inr (dict_get (response_cache w) endpoint),
            w\<lparr>trace := trace w @ [CacheGet endpoint]\<rparr>)"
    by (rule yahoo_api_call_hit)
next
  assume "dict_get (response_cache w) endpoint = JNull"
  then show "\<exists>rest. trace (snd (yahoo_api_call endpoint retry True w))
                 = trace w @ [CacheGet endpoint, RateAcquire, HttpGet endpoint] @ rest"
    by (rule trace_after_call_miss)
next
  assume h: "cache_miss endpoint use_cache w
        \<and> attempt endpoint use_cache w = (Response status data text, w1)
        \<and> (status \<noteq> 401 \<or> \<not> retry)"
  then show "snd (yahoo_api_call endpoint retry use_cache w)
         = (if status = 200 \<and> use_cache then response_cache_set endpoint data w1 else w1)"
    by (auto simp: yahoo_api_call_miss)
  show "response_cache w1 = response_cache w"
    using h attempt_fields [of endpoint use_cache w] by simp
next
  assume h: "cache_miss endpoint use_cache w
        \<and> attempt endpoint use_cache w = (Response 401 data text, w1)
        \<and> refresh_yahoo_token w1 = (Inr refresh_result, w2)"
  show "response_cache w2 = response_cache w"
    using h attempt_fields [of endpoint use_cache w] refresh_yahoo_token_fields [of w1]
    by simp
  show "cache_miss endpoint use_cache w2"
    using h cache_miss_after_refresh by blast
  show "yahoo_api_call endpoint True use_cache w
         = (if eq_str (dict_get refresh_result ''status'') ''success''
            then yahoo_api_call endpoint False use_cache w2
            else (Inl (Raise Exception
                    (''Yahoo API auth failed and token refresh failed: '' @ take 200 text)),
                  w2))"
    using h by (simp add: yahoo_api_call_miss)
qed

theorem yahoo_api_call_cache_then_permit_then_request_witness:
  "yahoo_api_call ''league/1/standings'' True True world_cached
     = (Inr (JObj [(''fantasy_content'', JObj [])]),
        world_cached\<lparr>trace := [CacheGet ''league/1/standings'']\<rparr>)
   \<and> trace (snd (yahoo_api_call ''league/1/standings'' True True world_200))
       = [CacheGet ''league/1/standings'', RateAcquire, HttpGet ''league/1/standings'',
          CacheSet ''league/1/standings'' (JObj [(''fantasy_content'', JObj [])])]
   \<and> response_cache (snd (yahoo_api_call ''league/1/standings'' True False world_200)) = []
   \<and> response_cache (snd (yahoo_api_call ''league/1/standings'' True True world_503)) = []"
proof -
  let ?e = "''league/1/standings''"
  let ?p = "JObj [(''fantasy_content'', JObj [])]"
  have hit: "dict_get (response_cache world_cached) ?e \<noteq> JNull"
    by (simp add: world_cached_def dict_get_def)
  have c1: "yahoo_api_call ?e True True world_cached
     = (Inr ?p, world_cached\<lparr>trace := [CacheGet ?e]\<rparr>)"
    using yahoo_api_call_cache_then_permit_then_request [of world_cached ?e True] hit
    by (simp add: world_cached_def dict_get_def)
  have m1: "cache_miss ?e True world_200"
    by (simp add: world_200_def world_eval)
  have a1: "attempt ?e True world_200 = (Response 200 ?p [], snd (attempt ?e True world_200))"
    by (simp add: world_200_def world_eval)
  have c2: "trace (snd (yahoo_api_call ?e True True world_200))
       = [CacheGet ?e, RateAcquire, HttpGet ?e, CacheSet ?e ?p]"
    using yahoo_api_call_cache_then_permit_then_request
            [of world_200 ?e True True 200 ?p "[]" "snd (attempt ?e True world_200)"] m1 a1
    by (simp add: world_200_def world_eval)
  have m2: "cache_miss ?e False world_200"
    by (simp add: world_eval)
  have a2: "attempt ?e False world_200 = (Response 200 ?p [], snd (attempt ?e False world_200))"
    by (simp add: world_200_def world_eval)
  have c3: "response_cache (snd (yahoo_api_call ?e True False world_200)) = []"
    using yahoo_api_call_cache_then_permit_then_request
            [of world_200 ?e True False 200 ?p "[]" "snd (attempt ?e False world_200)"] m2 a2
    by (simp add: world_200_def world_eval)
  have m3: "cache_miss ?e True world_503"
    by (simp add: world_503_def world_eval)
  have a3: "attempt ?e True world_503
      = (Response 503 JNull (replicate 300 (CHR ''x'')), snd (attempt ?e True world_503))"
    by (simp add: world_503_def world_eval)
  have c4: "response_cache (snd (yahoo_api_call ?e True True world_503)) = []"
    using yahoo_api_call_cache_then_permit_then_request
            [of world_503 ?e True True 503 JNull "replicate 300 (CHR ''x'')"
                "snd (attempt ?e True world_503)"] m3 a3
    by (simp add: world_503_def world_eval)
  show ?thesis using c1 c2 c3 c4 by simp
qed

subsection \<open>Errors of the upstream\<close>

text \<open>
  Claim C7. After a miss, a response whose status is not 200, and not 401 unless the retry
  is disabled, makes \<open>yahoo_api_call\<close> raise an exception whose message carries the status
  code and the first 200 characters of the body at most; nothing is stored in the cache.
\<close>

theorem yahoo_api_call_upstream_error:
  "cache_miss endpoint use_cache w
     \<and> attempt endpoint use_cache w = (Response status data text, w1)
     \<and> status \<noteq> 200 \<and> (status \<noteq> 401 \<or> \<not> retry)
   \<longrightarrow> yahoo_api_call endpoint retry use_cache w
        = (Inl (Raise Exception
             (''Yahoo API error '' @ str_int status @ '': '' @ take 200 text)), w1)
      \<and> length (take 200 text) \<le> 200
      \<and> response_cache w1 = response_cache w
      \<and> (\<forall>k v. CacheSet k v \<notin> set (drop (length (trace w)) (trace w1)))"
proof (intro impI conjI)
  assume h: "cache_miss endpoint use_cache w
     \<and> attempt endpoint use_cache w = (Response status data text, w1)
     \<and> status \<noteq> 200 \<and> (status \<noteq> 401 \<or> \<not> retry)"
  then show "yahoo_api_call endpoint retry use_cache w
        = (Inl (Raise Exception
             (''Yahoo API error '' @ str_int status @ '': '' @ take 200 text)), w1)"
    by (auto simp: yahoo_api_call_miss)
  show "length (take 200 text) \<le> 200" by simp
  show "response_cache w1 = response_cache w"
    using h attempt_fields [of endpoint use_cache w] by simp
  show "\<forall>k v. CacheSet k v \<notin> set (drop (length (trace w)) (trace w1))"
    using h attempt_fields [of endpoint use_cache w] by auto
qed

lemma str_int_503: "str_int 503 = ''503''"
  by (simp add: str_int_def digit_char_def)

theorem yahoo_api_call_upstream_error_witness:
  "fst (yahoo_api_call ''league/1/standings'' True True world_503)
     = Inl (Raise Exception (''Yahoo API error 503: '' @ replicate 200 (CHR ''x'')))
   \<and> response_cache (snd (yahoo_api_call ''league/1/standings'' True True world_503)) = []"
proof -
  let ?e = "''league/1/standings''"
  have m3: "cache_miss ?e True world_503"
    by (simp add: world_503_def world_eval)
  have a3: "attempt ?e True world_503
      = (Response 503 JNull (replicate 300 (CHR ''x'')), snd (attempt ?e True world_503))"
    by (simp add: world_503_def world_eval)
  have r: "response_cache world_503 = []" by (simp add: world_503_def)
  show ?thesis
    using yahoo_api_call_upstream_error
            [of ?e True world_503 503 JNull "replicate 300 (CHR ''x'')"
                "snd (attempt ?e True world_503)" True] m3 a3 r
    by (simp add: str_int_503)
qed

subsection \<open>The refresher returns a result\<close>

lemma refresh_exchange_result:
  assumes "refresh_exchange rt w = (Inr result, w')"
  shows "(dict_get result ''status'' = JStr ''success'' \<and> map_of result ''expires_in'' \<noteq> None)
       \<or> (dict_get result ''status'' = JStr ''error''
           \<and> (\<exists>m. map_of result ''message'' = Some (JStr m)))"
  using assms unfolding refresh_exchange_def
  by (auto simp: dict_get_def Let_def
           split: prod.splits http_result.splits if_splits sum.splits)

lemma refresh_yahoo_token_returns:
  "\<exists>result. fst (refresh_yahoo_token w) = Inr result \<and>
      ((dict_get result ''status'' = JStr ''success'' \<and> map_of result ''expires_in'' \<noteq> None)
       \<or> (dict_get result ''status'' = JStr ''error''
           \<and> (\<exists>m. map_of result ''message'' = Some (JStr m))))"
proof -
  let ?w = "w\<lparr>trace := trace w @ [RefreshCall]\<rparr>"
  let ?rt = "case getenv ?w ''YAHOO_REFRESH_TOKEN'' of JStr s \<Rightarrow> s | _ \<Rightarrow> []"
  obtain a w1 where ex: "refresh_exchange ?rt ?w = (a, w1)"
    by (cases "refresh_exchange ?rt ?w")
  show ?thesis
  proof (cases a)
    case (Inl e)
    then show ?thesis using ex
      by (simp add: refresh_yahoo_token_def Let_def dict_get_def)
  next
    case (Inr d)
    then show ?thesis using ex refresh_exchange_result [of ?rt ?w d w1]
      by (auto simp: refresh_yahoo_token_def Let_def dict_get_def)
  qed
qed

lemma credentials_present_trace [simp]:
  "credentials_present (w\<lparr>trace := t\<rparr>) = credentials_present w"
  by (simp add: credentials_present_def getenv_def)

text \<open>
  Claim C4. \<open>refresh_yahoo_token\<close> never raises: in every state and for every answer of the
  token endpoint it returns a dict whose \<open>status\<close> is \<open>success\<close>, with \<open>expires_in\<close>, or
  \<open>error\<close>, with a \<open>message\<close>. It returns the error dict in particular when credentials are
  missing from the environment, when the token endpoint answers with a status other than
  200, and when the exchange raises.
\<close>

theorem refresh_yahoo_token_never_raises:
  "(\<exists>result. fst (refresh_yahoo_token w) = Inr result \<and>
      ((dict_get result ''status'' = JStr ''success'' \<and> map_of result ''expires_in'' \<noteq> None)
       \<or> (dict_get result ''status'' = JStr ''error''
           \<and> (\<exists>m. map_of result ''message'' = Some (JStr m)))))
   \<and> (\<not> credentials_present w \<longrightarrow>
        refresh_yahoo_token w
          = (Inr [(''status'', JStr ''error''),
                  (''message'', JStr ''Missing credentials in environment'')],
             w\<lparr>trace := trace w @ [RefreshCall]\<rparr>))
   \<and> (credentials_present w \<and> token_endpoint w = Response status body text # rest
        \<and> status \<noteq> 200 \<longrightarrow>
        fst (refresh_yahoo_token w)
          = Inr [(''status'', JStr ''error''),
                 (''message'', JStr (''Failed to refresh token: '' @ str_int status)),
                 (''details'', JStr (take 200 text))])
   \<and> (credentials_present w \<and> token_endpoint w = Failed e # rest \<longrightarrow>
        fst (refresh_yahoo_token w)
          = Inr [(''status'', JStr ''error''),
                 (''message'', JStr (''Error refreshing token: '' @ error_str e))])"
proof (intro conjI impI)
  show "\<exists>result. fst (refresh_yahoo_token w) = Inr result \<and>
      ((dict_get result ''status'' = JStr ''success'' \<and> map_of result ''expires_in'' \<noteq> None)
       \<or> (dict_get result ''status'' = JStr ''error''
           \<and> (\<exists>m. map_of result ''message'' = Some (JStr m))))"
    by (rule refresh_yahoo_token_returns)
next
  assume "\<not> credentials_present w"
  then show "refresh_yahoo_token w
          = (Inr [(''status'', JStr ''error''),
                  (''message'', JStr ''Missing credentials in environment'')],
             w\<lparr>trace := trace w @ [RefreshCall]\<rparr>)"
    by (simp add: refresh_yahoo_token_def Let_def)
next
  assume "credentials_present w \<and> token_endpoint w = Response status body text # rest
        \<and> status \<noteq> 200"
  then show "fst (refresh_yahoo_token w)
          = Inr [(''status'', JStr ''error''),
                 (''message'', JStr (''Failed to refresh token: '' @ str_int status)),
                 (''details'', JStr (take 200 text))]"
    by (simp add: refresh_yahoo_token_def refresh_exchange_def token_post_def Let_def)
next
  assume "credentials_present w \<and> token_endpoint w = Failed e # rest"
  then show "fst (refresh_yahoo_token w)
          = Inr [(''status'', JStr ''error''),
                 (''message'', JStr (''Error refreshing token: '' @ error_str e))]"
    by (simp add: refresh_yahoo_token_def refresh_exchange_def token_post_def Let_def)
qed

lemma str_int_500: "str_int 500 = ''500''"
  by (simp add: str_int_def digit_char_def)

theorem refresh_yahoo_token_never_raises_witness:
  "fst (refresh_yahoo_token world_no_credentials)
     = Inr [(''status'', JStr ''error''),
            (''message'', JStr ''Missing credentials in environment'')]
   \<and> fst (refresh_yahoo_token world_token_500)
     = Inr [(''status'', JStr ''error''),
            (''message'', JStr ''Failed to refresh token: 500''),
            (''details'', JStr ''Server Error'')]
   \<and> fst (refresh_yahoo_token world_token_down)
     = Inr [(''status'', JStr ''error''),
            (''message'', JStr ''Error refreshing token: timed out'')]"
proof -
  have n: "\<not> credentials_present world_no_credentials"
    by (simp add: world_no_credentials_def credentials_present_def getenv_def)
  have c1: "fst (refresh_yahoo_token world_no_credentials)
     = Inr [(''status'', JStr ''error''),
            (''message'', JStr ''Missing credentials in environment'')]"
    using refresh_yahoo_token_never_raises [of world_no_credentials] n by simp
  have p5: "credentials_present world_token_500"
    by (simp add: world_token_500_def credentials_present_def getenv_def sample_environ_def)
  have t5: "token_endpoint world_token_500 = Response 500 JNull ''Server Error'' # []"
    by (simp add: world_token_500_def)
  have c2: "fst (refresh_yahoo_token world_token_500)
     = Inr [(''status'', JStr ''error''),
            (''message'', JStr ''Failed to refresh token: 500''),
            (''details'', JStr ''Server Error'')]"
    using refresh_yahoo_token_never_raises
            [of world_token_500 500 JNull "''Server Error''" "[]"] p5 t5
    by (simp add: str_int_500)
  have pd: "credentials_present world_token_down"
    by (simp add: world_token_down_def credentials_present_def getenv_def sample_environ_def)
  have td: "token_endpoint world_token_down = Failed (Raise ClientError ''timed out'') # []"
    by (simp add: world_token_down_def)
  have c3: "fst (refresh_yahoo_token world_token_down)
     = Inr [(''status'', JStr ''error''),
            (''message'', JStr ''Error refreshing token: timed out'')]"
    using refresh_yahoo_token_never_raises
            [of world_token_down _ _ _ "[]" "Raise ClientError ''timed out''"] pd td
    by (simp add: error_str_def)
  show ?thesis using c1 c2 c3 by simp
qed

subsection \<open>The credentials after a refresh\<close>

lemma getenv_trace [simp]: "getenv (w\<lparr>trace := t\<rparr>) k = getenv w k"
  by (simp add: getenv_def)








subsection \<open>The memoized leagues\<close>

lemma discover_leagues_fetch_trace:
  "LEAGUES_CACHE w = [] \<Longrightarrow>
   trace (snd (discover_leagues w)) = trace (snd (yahoo_api_call leagues_endpoint True True w))"
  by (simp add: discover_leagues_def Let_def split: prod.splits sum.splits)

lemma discover_leagues_stores:
  "discover_leagues w = (Inr leagues, w1) \<Longrightarrow> LEAGUES_CACHE w1 = leagues"
  by (auto simp: discover_leagues_def Let_def split: if_splits prod.splits sum.splits)

lemma discover_leagues_next_call:
  assumes "LEAGUES_CACHE w1 = []"
  shows "\<exists>rest. trace (snd (discover_leagues w1)) = trace w1 @ CacheGet leagues_endpoint # rest
          \<and> (HttpGet leagues_endpoint \<in> set rest
               \<longleftrightarrow> dict_get (response_cache w1) leagues_endpoint = JNull)"
proof (cases "dict_get (response_cache w1) leagues_endpoint = JNull")
  case True
  from trace_after_call_miss [OF True, of True] obtain rest where
    "trace (snd (yahoo_api_call leagues_endpoint True True w1))
       = trace w1 @ [CacheGet leagues_endpoint, RateAcquire, HttpGet leagues_endpoint] @ rest"
    by blast
  then have "trace (snd (discover_leagues w1))
       = trace w1 @ CacheGet leagues_endpoint # (RateAcquire # HttpGet leagues_endpoint # rest)"
    using discover_leagues_fetch_trace [OF assms] by simp
  then show ?thesis using True by fastforce
next
  case False
  then have "trace (snd (yahoo_api_call leagues_endpoint True True w1))
       = trace w1 @ [CacheGet leagues_endpoint]"
    by (simp add: yahoo_api_call_hit)
  then have "trace (snd (discover_leagues w1)) = trace w1 @ CacheGet leagues_endpoint # []"
    using discover_leagues_fetch_trace [OF assms] by simp
  then show ?thesis using False by fastforce
qed

text \<open>
  Claim C10, as amended. A non-empty \<open>LEAGUES_CACHE\<close> is returned as it is and the state is
  untouched. A call that returns a mapping leaves it in \<open>LEAGUES_CACHE\<close>. After a call that
  returned the empty mapping, the next call goes to \<open>yahoo_api_call\<close> again: it looks the
  endpoint up in the response cache and issues a request to the upstream exactly when the
  response cache has no payload for it.
\<close>

theorem discover_leagues_memoizes_nonempty:
  "(LEAGUES_CACHE w \<noteq> [] \<longrightarrow> discover_leagues w = (Inr (LEAGUES_CACHE w), w))
   \<and> (discover_leagues w = (Inr leagues, w1) \<longrightarrow> LEAGUES_CACHE w1 = leagues)
   \<and> (discover_leagues w = (Inr [], w1) \<longrightarrow>
        (\<exists>rest. trace (snd (discover_leagues w1))
                   = trace w1 @ CacheGet leagues_endpoint # rest
           \<and> (HttpGet leagues_endpoint \<in> set rest
                \<longleftrightarrow> dict_get (response_cache w1) leagues_endpoint = JNull)))"
proof (intro conjI impI)
  assume "LEAGUES_CACHE w \<noteq> []"
  then show "discover_leagues w = (Inr (LEAGUES_CACHE w), w)"
    by (simp add: discover_leagues_def)
next
  assume "discover_leagues w = (Inr leagues, w1)"
  then show "LEAGUES_CACHE w1 = leagues" by (rule discover_leagues_stores)
next
  assume "discover_leagues w = (Inr [], w1)"
  then have "LEAGUES_CACHE w1 = []" by (rule discover_leagues_stores)
  then show "\<exists>rest. trace (snd (discover_leagues w1))
                   = trace w1 @ CacheGet leagues_endpoint # rest
           \<and> (HttpGet leagues_endpoint \<in> set rest
                \<longleftrightarrow> dict_get (response_cache w1) leagues_endpoint = JNull)"
    by (rule discover_leagues_next_call)
qed

theorem discover_leagues_memoizes_nonempty_witness:
  "fst (discover_leagues (world_answering payload_one_league))
     = Inr [(JStr ''461.l.61410'',
             JObj [(''key'', JStr ''461.l.61410''), (''id'', JStr []),
                   (''name'', JStr ''Home League''), (''season'', JInt 2025),
                   (''num_teams'', JInt 0), (''scoring_type'', JStr ''head''),
                   (''current_week'', JInt 1), (''is_finished'', JInt 0)])]
   \<and> discover_leagues (snd (discover_leagues (world_answering payload_one_league)))
     = (fst (discover_leagues (world_answering payload_one_league)),
        snd (discover_leagues (world_answering payload_one_league)))
   \<and> LEAGUES_CACHE (snd (discover_leagues (world_answering payload_no_leagues))) = []
   \<and> (\<exists>rest. trace (snd (discover_leagues
                  (snd (discover_leagues (world_answering payload_no_leagues)))))
          = trace (snd (discover_leagues (world_answering payload_no_leagues)))
              @ CacheGet leagues_endpoint # rest
        \<and> HttpGet leagues_endpoint \<notin> set rest)"
proof -
  let ?w1 = "snd (discover_leagues (world_answering payload_one_league))"
  let ?l1 = "[(JStr ''461.l.61410'',
             JObj [(''key'', JStr ''461.l.61410''), (''id'', JStr []),
                   (''name'', JStr ''Home League''), (''season'', JInt 2025),
                   (''num_teams'', JInt 0), (''scoring_type'', JStr ''head''),
                   (''current_week'', JInt 1), (''is_finished'', JInt 0)])]"
  let ?w0 = "snd (discover_leagues (world_answering payload_no_leagues))"
  have a1: "fst (discover_leagues (world_answering payload_one_league)) = Inr ?l1"
    by code_simp
  have a: "discover_leagues (world_answering payload_one_league) = (Inr ?l1, ?w1)"
    using a1 by (simp add: prod_eq_iff)
  have b: "LEAGUES_CACHE ?w1 = ?l1"
    using discover_leagues_memoizes_nonempty
            [of "world_answering payload_one_league" ?l1 ?w1] a by simp
  have c: "discover_leagues ?w1 = (Inr (LEAGUES_CACHE ?w1), ?w1)"
    using discover_leagues_memoizes_nonempty [of ?w1] b by simp
  have c': "discover_leagues ?w1
     = (fst (discover_leagues (world_answering payload_one_league)), ?w1)"
    unfolding c b a1 ..
  have d1: "fst (discover_leagues (world_answering payload_no_leagues)) = Inr []"
    by code_simp
  have d: "discover_leagues (world_answering payload_no_leagues) = (Inr [], ?w0)"
    using d1 by (simp add: prod_eq_iff)
  have e: "dict_get (response_cache ?w0) leagues_endpoint \<noteq> JNull"
    by code_simp
  have f: "LEAGUES_CACHE ?w0 = []"
    using discover_leagues_memoizes_nonempty
            [of "world_answering payload_no_leagues" "[]" ?w0] d by simp
  have g: "\<exists>rest. trace (snd (discover_leagues ?w0))
          = trace ?w0 @ CacheGet leagues_endpoint # rest
        \<and> HttpGet leagues_endpoint \<notin> set rest"
    using discover_leagues_memoizes_nonempty
            [of "world_answering payload_no_leagues" "[]" ?w0] d e by simp
  show ?thesis
    by (intro conjI) (rule a1, rule c', rule f, rule g)
qed

text \<open>
  Claim C10 as stated fails: the user has no league, the first call fetches the payload
  and returns the empty mapping; the second call returns the empty mapping from the payload
  the response cache holds, and no second request reaches the upstream.
\<close>

theorem discover_leagues_refetch_counterexample:
  "fst (discover_leagues (world_answering payload_no_leagues)) = Inr []
   \<and> trace (snd (discover_leagues (world_answering payload_no_leagues)))
       = [CacheGet leagues_endpoint, RateAcquire, HttpGet leagues_endpoint,
          CacheSet leagues_endpoint payload_no_leagues]
   \<and> fst (discover_leagues (snd (discover_leagues (world_answering payload_no_leagues))))
       = Inr []
   \<and> trace (snd (discover_leagues (snd (discover_leagues (world_answering payload_no_leagues)))))
       = [CacheGet leagues_endpoint, RateAcquire, HttpGet leagues_endpoint,
          CacheSet leagues_endpoint payload_no_leagues, CacheGet leagues_endpoint]"
  by code_simp

subsection \<open>Parse failures in the player lists\<close>




subsection \<open>The roster of a user without a team\<close>

lemma team_info_step_Some:
  assumes "team_info_step g teams key = Inr (Some v)"
  shows "\<exists>tk tn dg dp. v = JObj [(''team_key'', tk), (''team_name'', tn),
                                   (''draft_grade'', dg), (''draft_position'', dp)] \<and> truthy tk"
proof -
  obtain first where f: "first_of_entry teams key ''team'' = Inr first"
    using assms by (cases "first_of_entry teams key ''team''")
                   (simp_all add: team_info_step_def bind_e_def)
  show ?thesis
    using assms f
    by (auto simp: team_info_step_def bind_e_def
             split: option.splits json.splits sum.splits if_splits)
qed

lemma first_result_team_info:
  "first_result (team_info_step g teams) keys = Inr (Some v) \<Longrightarrow>
   \<exists>tk tn dg dp. v = JObj [(''team_key'', tk), (''team_name'', tn),
                             (''draft_grade'', dg), (''draft_position'', dp)] \<and> truthy tk"
proof (induction keys)
  case Nil
  then show ?case by simp
next
  case (Cons k keys)
  show ?case
  proof (cases "team_info_step g teams k")
    case (Inl e)
    then show ?thesis using Cons.prems by simp
  next
    case (Inr r)
    show ?thesis
    proof (cases r)
      case None
      then show ?thesis using Cons Inr by simp
    next
      case (Some v')
      then have "v' = v" using Cons.prems Inr by simp
      then show ?thesis using team_info_step_Some [of g teams k v] Inr Some by simp
    qed
  qed
qed

lemma find_user_team_Some:
  assumes "find_user_team g data = Inr (Some v)"
  shows "\<exists>tk tn dg dp. v = JObj [(''team_key'', tk), (''team_name'', tn),
                                   (''draft_grade'', dg), (''draft_position'', dp)] \<and> truthy tk"
  using assms first_result_team_info
  by (auto simp: find_user_team_def bind_e_def split: sum.splits option.splits)

lemma get_user_team_info_shape:
  "fst (get_user_team_info league_key w) = JNull
   \<or> (\<exists>tk tn dg dp. fst (get_user_team_info league_key w)
          = JObj [(''team_key'', tk), (''team_name'', tn),
                  (''draft_grade'', dg), (''draft_position'', dp)] \<and> truthy tk)"
proof -
  obtain r w1 where c: "yahoo_api_call (''league/'' @ league_key @ ''/teams'') True True w = (r, w1)"
    by (cases "yahoo_api_call (''league/'' @ league_key @ ''/teams'') True True w")
  show ?thesis
    using c find_user_team_Some
    by (auto simp: get_user_team_info_def Let_def split: sum.splits option.splits)
qed

text \<open>
  Claim C8. When \<open>get_user_team_info\<close> yields \<open>None\<close>, \<open>ff_get_roster\<close> raises \<open>ToolError\<close>
  with a message that names the league, and does nothing after the lookup of the team (no
  roster is requested or returned). \<open>get_user_team_info\<close> yields either \<open>None\<close> or a team
  with a key; it yields \<open>None\<close> when the gateway raises, when the parse raises and when no
  team of the payload belongs to the user.
\<close>

theorem ff_get_roster_without_team_raises:
  "(fst (get_user_team_info league_key w) = JNull \<longrightarrow>
      ff_get_roster py league_key w
        = (Inl (Raise ToolError (''Could not find your team in league '' @ league_key)),
           snd (get_user_team_info league_key w)))
   \<and> (fst (get_user_team_info league_key w) = JNull
       \<or> (\<exists>tk tn dg dp. fst (get_user_team_info league_key w)
              = JObj [(''team_key'', tk), (''team_name'', tn),
                      (''draft_grade'', dg), (''draft_position'', dp)] \<and> truthy tk))
   \<and> (fst (yahoo_api_call (''league/'' @ league_key @ ''/teams'') True True w) = Inl e \<longrightarrow>
        fst (get_user_team_info league_key w) = JNull)
   \<and> (yahoo_api_call (''league/'' @ league_key @ ''/teams'') True True w = (Inr data, w1)
        \<and> (find_user_team (yahoo_guid w1) data = Inl e
             \<or> find_user_team (yahoo_guid w1) data = Inr None) \<longrightarrow>
        get_user_team_info league_key w = (JNull, w1))"
proof (intro conjI impI)
  assume n: "fst (get_user_team_info league_key w) = JNull"
  obtain t w1 where g: "get_user_team_info league_key w = (t, w1)"
    by (cases "get_user_team_info league_key w")
  then have "t = JNull" using n by simp
  then show "ff_get_roster py league_key w
        = (Inl (Raise ToolError (''Could not find your team in league '' @ league_key)),
           snd (get_user_team_info league_key w))"
    using g by (simp add: ff_get_roster_def)
next
  show "fst (get_user_team_info league_key w) = JNull
       \<or> (\<exists>tk tn dg dp. fst (get_user_team_info league_key w)
              = JObj [(''team_key'', tk), (''team_name'', tn),
                      (''draft_grade'', dg), (''draft_position'', dp)] \<and> truthy tk)"
    by (rule get_user_team_info_shape)
next
  assume "fst (yahoo_api_call (''league/'' @ league_key @ ''/teams'') True True w) = Inl e"
  then show "fst (get_user_team_info league_key w) = JNull"
    by (auto simp: get_user_team_info_def split: prod.splits)
next
  assume "yahoo_api_call (''league/'' @ league_key @ ''/teams'') True True w = (Inr data, w1)
        \<and> (find_user_team (yahoo_guid w1) data = Inl e
             \<or> find_user_team (yahoo_guid w1) data = Inr None)"
  then show "get_user_team_info league_key w = (JNull, w1)"
    by (auto simp: get_user_team_info_def)
qed

theorem ff_get_roster_without_team_raises_witness:
  "ff_get_roster py_sample ''461.l.61410'' (world_answering payload_other_team)
     = (Inl (Raise ToolError ''Could not find your team in league 461.l.61410''),
        snd (get_user_team_info ''461.l.61410'' (world_answering payload_other_team)))
   \<and> trace (snd (get_user_team_info ''461.l.61410'' (world_answering payload_other_team)))
     = [CacheGet ''league/461.l.61410/teams'', RateAcquire, HttpGet ''league/461.l.61410/teams'',
        CacheSet ''league/461.l.61410/teams'' payload_other_team]"
proof -
  have n: "fst (get_user_team_info ''461.l.61410'' (world_answering payload_other_team)) = JNull"
    by code_simp
  have t: "trace (snd (get_user_team_info ''461.l.61410'' (world_answering payload_other_team)))
     = [CacheGet ''league/461.l.61410/teams'', RateAcquire, HttpGet ''league/461.l.61410/teams'',
        CacheSet ''league/461.l.61410/teams'' payload_other_team]"
    by code_simp
  show ?thesis
    using ff_get_roster_without_team_raises
            [of "''461.l.61410''" "world_answering payload_other_team" py_sample] n t
    by simp
qed

subsection \<open>Tools that end in NameError\<close>

text \<open>
  Claim C3. The claim asks for placeholder standings when no standings can be extracted.
  \<open>ff_get_standings\<close> returns nothing at all: every call ends in an exception, and for a
  payload without standings it is the \<open>NameError\<close> for the name \<open>data\<close>.
\<close>

theorem ff_get_standings_never_returns:
  "isl (fst (ff_get_standings league_key w))
   \<and> fst (ff_get_standings ''461.l.61410'' (world_answering payload_no_standings))
       = Inl (name_error ''data'')"
proof
  show "isl (fst (ff_get_standings league_key w))"
    by (simp add: ff_get_standings_def split: prod.splits sum.splits)
  show "fst (ff_get_standings ''461.l.61410'' (world_answering payload_no_standings))
       = Inl (name_error ''data'')"
    by code_simp
qed

text \<open>
  Claim C9. \<open>ff_get_waiver_wire\<close> never returns a result: for every league key, position,
  sort order and count it raises \<open>NameError\<close> for the name \<open>arguments\<close>, and the state is
  untouched: no call has left the module.
\<close>

theorem ff_get_waiver_wire_never_returns:
  "ff_get_waiver_wire league_key position sort_arg count w
     = (Inl (name_error ''arguments''), w)"
  by (simp add: ff_get_waiver_wire_def)

end
